theory Spec2Isabelle
  imports Complex_Main
begin

section \<open>Data model of ChatEngine.ts\<close>

text \<open>
  The three chat engines of \<^verbatim>\<open>packages/core/src/ChatEngine.ts\<close> keep their
  conversation in a JavaScript array that they share by reference with their caller
  (the optional \<^verbatim>\<open>chatHistory\<close> argument of \<^verbatim>\<open>achat\<close>), and they call external
  services (language model, predictor, query engine, retriever). Arrays therefore live
  in an explicit store addressed by references, the external services are functions
  over a hidden external state, and every call of a service is recorded in a trace.

  One call of \<^verbatim>\<open>achat\<close> is modelled from its first to its last statement, each
  \<^verbatim>\<open>await\<close> being the point where the service answers or throws; calls on one engine
  do not overlap. A service reads the messages it is given and does not change the
  array that holds them.

  The roles of a message are the three of the spec's data model (the declaration of
  ChatMessage is in LLM.ts, outside the sources).
\<close>

datatype MessageType = User | Assistant | System

record ChatMessage =
  content :: string
  role :: MessageType

record ChatResponse =
  message :: ChatMessage

text \<open>The field \<^verbatim>\<open>text\<close> of a TextNode; the name is primed because \<^verbatim>\<open>text\<close> is reserved.\<close>

record TextNode =
  text' :: string

record NodeWithScore =
  node :: TextNode
  score :: real

text \<open>The field \<^verbatim>\<open>id\<close> of an Event is primed as well, \<open>id\<close> being the identity function.\<close>

record Event =
  id' :: string
  type :: string
  tags :: "string list"

record Response =
  response :: string
  sourceNodes :: "TextNode list"

text \<open>
  Modelled from the spec: the constructor of class Response (file Response.ts is not
  part of the sources). The spec gives a Response a text and an ordered, possibly empty
  sequence of source items; a Response built without source items has the empty
  sequence.
\<close>

definition new_Response :: "string \<Rightarrow> TextNode list option \<Rightarrow> Response" where
  "new_Response r ns =
     \<lparr>response = r, sourceNodes = (case ns of None \<Rightarrow> [] | Some xs \<Rightarrow> xs)\<rparr>"

text \<open>A thrown JavaScript error, with its message.\<close>

datatype error = Error string

text \<open>The variables handed to the predictor by the condensation step.\<close>

record CondenseVars =
  question :: string
  chat_history :: string

subsection \<open>Store, external state and trace\<close>

type_synonym ref = nat

text \<open>
  One entry per call of an external service, with the arguments of the call. The type
  \<open>'p\<close> is the type of prompt templates (SimplePrompt, declared outside the sources).
\<close>

datatype 'p gateway_call =
    LlmChat "ChatMessage list" "Event option"
  | Predict 'p CondenseVars
  | Query string
  | Retrieve string "Event option"

text \<open>
  \<open>heap\<close> maps a reference to the array it denotes, \<open>next_ref\<close> is the next
  unused reference, \<open>ext\<close> is the state of the world outside the program (what the
  services answer may depend on it and change it), \<open>calls\<close> is the trace.
\<close>

record ('p, 'x) world =
  heap :: "ref \<Rightarrow> ChatMessage list"
  next_ref :: ref
  ext :: 'x
  calls :: "'p gateway_call list"

text \<open>An array literal \<^verbatim>\<open>[]\<close> allocates a new array.\<close>

definition alloc :: "ChatMessage list \<Rightarrow> ('p, 'x) world \<Rightarrow> ref \<times> ('p, 'x) world" where
  "alloc xs w =
     (next_ref w, w\<lparr>heap := (heap w)(next_ref w := xs), next_ref := Suc (next_ref w)\<rparr>)"

text \<open>\<^verbatim>\<open>a.push(m)\<close> appends to the array in place: every holder of the reference sees it.\<close>

definition push :: "ref \<Rightarrow> ChatMessage \<Rightarrow> ('p, 'x) world \<Rightarrow> ('p, 'x) world" where
  "push a m w = w\<lparr>heap := (heap w)(a := heap w a @ [m])\<rparr>"

subsection \<open>External services\<close>

text \<open>
  A service call takes its arguments and the external state and returns either a thrown
  error (a rejected promise) or its result, with the new external state.
\<close>

record 'x LLM =
  achat :: "ChatMessage list \<Rightarrow> Event option \<Rightarrow> 'x \<Rightarrow> (error + ChatResponse) \<times> 'x"

record 'x BaseQueryEngine =
  aquery :: "string \<Rightarrow> 'x \<Rightarrow> (error + Response) \<times> 'x"

record 'x BaseRetriever =
  aretrieve :: "string \<Rightarrow> Event option \<Rightarrow> 'x \<Rightarrow> (error + NodeWithScore list) \<times> 'x"

record ('p, 'x) LLMPredictor =
  apredict :: "'p \<Rightarrow> CondenseVars \<Rightarrow> 'x \<Rightarrow> (error + string) \<times> 'x"

record ('p, 'x) ServiceContext =
  llmPredictor :: "('p, 'x) LLMPredictor"

text \<open>
  What ChatEngine.ts imports from modules that are not part of the sources (Prompt,
  LLM, ServiceContext, uuid), taken as parameters: the default condensation template,
  the rendering of a history as text, the system-prompt template as a function of its
  \<^verbatim>\<open>context\<close> variable, the constructor of the OpenAI client as a function of its
  optional model name, the default service context and the generator of identifiers.
\<close>

record ('p, 'x) modules =
  defaultCondenseQuestionPrompt :: 'p
  messagesToHistoryStr :: "ChatMessage list \<Rightarrow> string"
  contextSystemPrompt :: "string \<Rightarrow> string"
  new_OpenAI :: "string option \<Rightarrow> 'x LLM"
  serviceContextFromDefaults :: "('p, 'x) ServiceContext"
  uuidv4 :: "'x \<Rightarrow> string \<times> 'x"

text \<open>Each wrapper performs the call on the external state and records it.\<close>

definition call_achat ::
  "'x LLM \<Rightarrow> ChatMessage list \<Rightarrow> Event option \<Rightarrow> ('p, 'x) world
    \<Rightarrow> (error + ChatResponse) \<times> ('p, 'x) world" where
  "call_achat g messages ev w =
     (case achat g messages ev (ext w) of
        (r, x) \<Rightarrow> (r, w\<lparr>ext := x, calls := calls w @ [LlmChat messages ev]\<rparr>))"

definition call_apredict ::
  "('p, 'x) LLMPredictor \<Rightarrow> 'p \<Rightarrow> CondenseVars \<Rightarrow> ('p, 'x) world
    \<Rightarrow> (error + string) \<times> ('p, 'x) world" where
  "call_apredict g prompt vars w =
     (case apredict g prompt vars (ext w) of
        (r, x) \<Rightarrow> (r, w\<lparr>ext := x, calls := calls w @ [Predict prompt vars]\<rparr>))"

definition call_aquery ::
  "'x BaseQueryEngine \<Rightarrow> string \<Rightarrow> ('p, 'x) world \<Rightarrow> (error + Response) \<times> ('p, 'x) world" where
  "call_aquery g q w =
     (case aquery g q (ext w) of
        (r, x) \<Rightarrow> (r, w\<lparr>ext := x, calls := calls w @ [Query q]\<rparr>))"

definition call_aretrieve ::
  "'x BaseRetriever \<Rightarrow> string \<Rightarrow> Event option \<Rightarrow> ('p, 'x) world
    \<Rightarrow> (error + NodeWithScore list) \<times> ('p, 'x) world" where
  "call_aretrieve g q ev w =
     (case aretrieve g q ev (ext w) of
        (r, x) \<Rightarrow> (r, w\<lparr>ext := x, calls := calls w @ [Retrieve q ev]\<rparr>))"

text \<open>\<^verbatim>\<open>Array.prototype.join\<close> on strings: the empty array gives the empty string.\<close>

fun join :: "string \<Rightarrow> string list \<Rightarrow> string" where
  "join sep [] = []"
| "join sep [x] = x"
| "join sep (x # y # ys) = x @ sep @ join sep (y # ys)"

text \<open>\<^verbatim>\<open>a ?? b\<close>: the left operand unless it is undefined.\<close>

definition nullish :: "'a option \<Rightarrow> 'a \<Rightarrow> 'a" where
  "nullish a b = (case a of None \<Rightarrow> b | Some v \<Rightarrow> v)"

section \<open>SimpleChatEngine\<close>

record 'x SimpleChatEngine =
  chatHistory :: ref
  llm :: "'x LLM"

text \<open>
  The constructor; its optional \<^verbatim>\<open>init\<close> object is given field by field
  (an absent \<^verbatim>\<open>init\<close> is both fields absent).
\<close>

definition SimpleChatEngine_new ::
  "('p, 'x) modules \<Rightarrow> ref option \<Rightarrow> 'x LLM option \<Rightarrow> ('p, 'x) world
    \<Rightarrow> 'x SimpleChatEngine \<times> ('p, 'x) world" where
  "SimpleChatEngine_new I init_chatHistory init_llm w =
     (case (case init_chatHistory of None \<Rightarrow> alloc [] w | Some h \<Rightarrow> (h, w)) of
        (h, w1) \<Rightarrow>
          (\<lparr>SimpleChatEngine.chatHistory = h, llm = nullish init_llm (new_OpenAI I None)\<rparr>, w1))"

text \<open>
  In the methods below the parameters \<^verbatim>\<open>message\<close>, \<^verbatim>\<open>chatHistory\<close> and
  \<^verbatim>\<open>question\<close> of the source are written \<open>msg\<close>, \<open>chatHistory_arg\<close> and \<open>q\<close>,
  and the local \<^verbatim>\<open>response\<close> is written \<open>resp\<close>: the plain names are fields of
  records here. A method returns its result or the thrown error, the engine object and
  the world as it leaves them.
\<close>

definition SimpleChatEngine_chatRepl :: "'x SimpleChatEngine \<Rightarrow> error + unit" where
  "SimpleChatEngine_chatRepl this = Inl (Error ''Method not implemented.'')"

definition SimpleChatEngine_achat ::
  "'x SimpleChatEngine \<Rightarrow> string \<Rightarrow> ref option \<Rightarrow> ('p, 'x) world
    \<Rightarrow> (error + Response) \<times> 'x SimpleChatEngine \<times> ('p, 'x) world" where
  "SimpleChatEngine_achat this msg chatHistory_arg w =
     (let chatHistory = nullish chatHistory_arg (SimpleChatEngine.chatHistory this);
          w1 = push chatHistory \<lparr>content = msg, role = User\<rparr> w
      in case call_achat (llm this) (heap w1 chatHistory) None w1 of
           (Inl e, w2) \<Rightarrow> (Inl e, this, w2)
         | (Inr resp, w2) \<Rightarrow>
             (let w3 = push chatHistory (message resp) w2;
                  this' = this\<lparr>SimpleChatEngine.chatHistory := chatHistory\<rparr>
              in (Inr (new_Response (content (message resp)) None), this', w3)))"

definition SimpleChatEngine_reset ::
  "'x SimpleChatEngine \<Rightarrow> ('p, 'x) world \<Rightarrow> 'x SimpleChatEngine \<times> ('p, 'x) world" where
  "SimpleChatEngine_reset this w =
     (case alloc [] w of (h, w1) \<Rightarrow> (this\<lparr>SimpleChatEngine.chatHistory := h\<rparr>, w1))"

section \<open>CondenseQuestionChatEngine\<close>

record ('p, 'x) CondenseQuestionChatEngine =
  queryEngine :: "'x BaseQueryEngine"
  chatHistory :: ref
  serviceContext :: "('p, 'x) ServiceContext"
  condenseMessagePrompt :: 'p

definition CondenseQuestionChatEngine_new ::
  "('p, 'x) modules \<Rightarrow> 'x BaseQueryEngine \<Rightarrow> ref option \<Rightarrow> ('p, 'x) ServiceContext option
    \<Rightarrow> 'p option \<Rightarrow> ('p, 'x) world
    \<Rightarrow> ('p, 'x) CondenseQuestionChatEngine \<times> ('p, 'x) world" where
  "CondenseQuestionChatEngine_new I init_queryEngine init_chatHistory init_serviceContext
       init_condenseMessagePrompt w =
     (case (case init_chatHistory of None \<Rightarrow> alloc [] w | Some h \<Rightarrow> (h, w)) of
        (h, w1) \<Rightarrow>
          (\<lparr>queryEngine = init_queryEngine,
            CondenseQuestionChatEngine.chatHistory = h,
            serviceContext = nullish init_serviceContext (serviceContextFromDefaults I),
            condenseMessagePrompt =
              nullish init_condenseMessagePrompt (defaultCondenseQuestionPrompt I)\<rparr>, w1))"

definition acondenseQuestion ::
  "('p, 'x) modules \<Rightarrow> ('p, 'x) CondenseQuestionChatEngine \<Rightarrow> ref \<Rightarrow> string
    \<Rightarrow> ('p, 'x) world \<Rightarrow> (error + string) \<times> ('p, 'x) world" where
  "acondenseQuestion I this chatHistory_arg q w =
     (let chatHistoryStr = messagesToHistoryStr I (heap w chatHistory_arg)
      in call_apredict (llmPredictor (serviceContext this))
           (defaultCondenseQuestionPrompt I)
           \<lparr>question = q, chat_history = chatHistoryStr\<rparr> w)"

definition CondenseQuestionChatEngine_achat ::
  "('p, 'x) modules \<Rightarrow> ('p, 'x) CondenseQuestionChatEngine \<Rightarrow> string \<Rightarrow> ref option
    \<Rightarrow> ('p, 'x) world
    \<Rightarrow> (error + Response) \<times> ('p, 'x) CondenseQuestionChatEngine \<times> ('p, 'x) world" where
  "CondenseQuestionChatEngine_achat I this msg chatHistory_arg w =
     (let chatHistory = nullish chatHistory_arg (CondenseQuestionChatEngine.chatHistory this)
      in case acondenseQuestion I this chatHistory msg w of
           (Inl e, w1) \<Rightarrow> (Inl e, this, w1)
         | (Inr condensedQuestion, w1) \<Rightarrow>
             (case call_aquery (queryEngine this) condensedQuestion w1 of
                (Inl e, w2) \<Rightarrow> (Inl e, this, w2)
              | (Inr resp, w2) \<Rightarrow>
                  (let w3 = push chatHistory \<lparr>content = msg, role = User\<rparr> w2;
                       w4 = push chatHistory \<lparr>content = response resp, role = Assistant\<rparr> w3
                   in (Inr resp, this, w4))))"

definition CondenseQuestionChatEngine_chatRepl ::
  "('p, 'x) CondenseQuestionChatEngine \<Rightarrow> error + unit" where
  "CondenseQuestionChatEngine_chatRepl this = Inl (Error ''Method not implemented.'')"

definition CondenseQuestionChatEngine_reset ::
  "('p, 'x) CondenseQuestionChatEngine \<Rightarrow> ('p, 'x) world
    \<Rightarrow> ('p, 'x) CondenseQuestionChatEngine \<times> ('p, 'x) world" where
  "CondenseQuestionChatEngine_reset this w =
     (case alloc [] w of
        (h, w1) \<Rightarrow> (this\<lparr>CondenseQuestionChatEngine.chatHistory := h\<rparr>, w1))"

section \<open>ContextChatEngine\<close>

record 'x ContextChatEngine =
  retriever :: "'x BaseRetriever"
  chatModel :: "'x LLM"
  chatHistory :: ref

definition ContextChatEngine_new ::
  "('p, 'x) modules \<Rightarrow> 'x BaseRetriever \<Rightarrow> 'x LLM option \<Rightarrow> ref option \<Rightarrow> ('p, 'x) world
    \<Rightarrow> 'x ContextChatEngine \<times> ('p, 'x) world" where
  "ContextChatEngine_new I init_retriever init_chatModel init_chatHistory w =
     (case (case init_chatHistory of None \<Rightarrow> alloc [] w | Some h \<Rightarrow> (h, w)) of
        (h, w1) \<Rightarrow>
          (\<lparr>retriever = init_retriever,
            chatModel = nullish init_chatModel (new_OpenAI I (Some ''gpt-3.5-turbo-16k'')),
            ContextChatEngine.chatHistory = h\<rparr>, w1))"

definition ContextChatEngine_chatRepl :: "'x ContextChatEngine \<Rightarrow> error + unit" where
  "ContextChatEngine_chatRepl this = Inl (Error ''Method not implemented.'')"

text \<open>The tracing event that \<^verbatim>\<open>achat\<close> creates from a fresh identifier.\<close>

definition parentEvent :: "string \<Rightarrow> Event" where
  "parentEvent u = \<lparr>id' = u, type = ''wrapper'', tags = [''final'']\<rparr>"

text \<open>The system message that \<^verbatim>\<open>achat\<close> composes from the retrieved items.\<close>

definition systemMessage :: "('p, 'x) modules \<Rightarrow> NodeWithScore list \<Rightarrow> ChatMessage" where
  "systemMessage I sourceNodesWithScore =
     \<lparr>content = contextSystemPrompt I
         (join [CHR 0x0A, CHR 0x0A] (map (\<lambda>r. text' (node r)) sourceNodesWithScore)),
      role = System\<rparr>"

definition ContextChatEngine_achat ::
  "('p, 'x) modules \<Rightarrow> 'x ContextChatEngine \<Rightarrow> string \<Rightarrow> ref option \<Rightarrow> ('p, 'x) world
    \<Rightarrow> (error + Response) \<times> 'x ContextChatEngine \<times> ('p, 'x) world" where
  "ContextChatEngine_achat I this msg chatHistory_arg w =
     (let chatHistory = nullish chatHistory_arg (ContextChatEngine.chatHistory this)
      in case uuidv4 I (ext w) of
           (u, x) \<Rightarrow>
             (let ev = parentEvent u
              in case call_aretrieve (retriever this) msg (Some ev) (w\<lparr>ext := x\<rparr>) of
                   (Inl e, w1) \<Rightarrow> (Inl e, this, w1)
                 | (Inr sourceNodesWithScore, w1) \<Rightarrow>
                     (let w2 = push chatHistory \<lparr>content = msg, role = User\<rparr> w1
                      in case call_achat (chatModel this)
                                (systemMessage I sourceNodesWithScore # heap w2 chatHistory)
                                (Some ev) w2 of
                           (Inl e, w3) \<Rightarrow> (Inl e, this, w3)
                         | (Inr resp, w3) \<Rightarrow>
                             (let w4 = push chatHistory (message resp) w3;
                                  this' = this\<lparr>ContextChatEngine.chatHistory := chatHistory\<rparr>
                              in (Inr (new_Response (content (message resp))
                                        (Some (map node sourceNodesWithScore))),
                                  this', w4)))))"

definition ContextChatEngine_reset ::
  "'x ContextChatEngine \<Rightarrow> ('p, 'x) world \<Rightarrow> 'x ContextChatEngine \<times> ('p, 'x) world" where
  "ContextChatEngine_reset this w =
     (case alloc [] w of (h, w1) \<Rightarrow> (this\<lparr>ContextChatEngine.chatHistory := h\<rparr>, w1))"

section \<open>Reading the trace and the state\<close>

text \<open>The questions passed to the query engine, in the order of the calls.\<close>

fun queries :: "'p gateway_call list \<Rightarrow> string list" where
  "queries [] = []"
| "queries (Query q # cs) = q # queries cs"
| "queries (c # cs) = queries cs"

text \<open>The template and the variables of each call of the predictor, in order.\<close>

fun predictions :: "'p gateway_call list \<Rightarrow> ('p \<times> CondenseVars) list" where
  "predictions [] = []"
| "predictions (Predict p v # cs) = (p, v) # predictions cs"
| "predictions (c # cs) = predictions cs"

text \<open>The message sequences passed to the completion service, in order.\<close>

fun completions :: "'p gateway_call list \<Rightarrow> ChatMessage list list" where
  "completions [] = []"
| "completions (LlmChat ms ev # cs) = ms # completions cs"
| "completions (c # cs) = completions cs"

text \<open>
  What can be observed of an engine: its fields, with the reference to the history
  replaced by the sequence it denotes.
\<close>

definition SimpleChatEngine_state ::
  "'x SimpleChatEngine \<Rightarrow> ('p, 'x) world \<Rightarrow> ChatMessage list \<times> 'x LLM" where
  "SimpleChatEngine_state this w = (heap w (SimpleChatEngine.chatHistory this), llm this)"

definition CondenseQuestionChatEngine_state ::
  "('p, 'x) CondenseQuestionChatEngine \<Rightarrow> ('p, 'x) world
    \<Rightarrow> 'x BaseQueryEngine \<times> ChatMessage list \<times> ('p, 'x) ServiceContext \<times> 'p" where
  "CondenseQuestionChatEngine_state this w =
     (queryEngine this, heap w (CondenseQuestionChatEngine.chatHistory this),
      serviceContext this, condenseMessagePrompt this)"

definition ContextChatEngine_state ::
  "'x ContextChatEngine \<Rightarrow> ('p, 'x) world
    \<Rightarrow> 'x BaseRetriever \<times> 'x LLM \<times> ChatMessage list" where
  "ContextChatEngine_state this w =
     (retriever this, chatModel this, heap w (ContextChatEngine.chatHistory this))"

text \<open>A sequence without system message.\<close>

definition no_system :: "ChatMessage list \<Rightarrow> bool" where
  "no_system ms = (System \<notin> set (map role ms))"

section \<open>Stub services and a small world, for concrete runs\<close>

text \<open>
  The external state of the stubs counts the calls that were answered. The completion
  stub always answers \<^verbatim>\<open>Paris.\<close> as the assistant, the retriever stub returns one
  item, the predictor stub returns one fixed standalone question, the query engine stub
  one fixed response; the \<open>down\<close> stubs throw.
\<close>

definition stub_llm :: "nat LLM" where
  "stub_llm = \<lparr>achat = (\<lambda>ms ev x.
     (Inr \<lparr>message = \<lparr>content = ''Paris.'', role = Assistant\<rparr>\<rparr>, Suc x))\<rparr>"

definition down_llm :: "nat LLM" where
  "down_llm = \<lparr>achat = (\<lambda>ms ev x. (Inl (Error ''rate limit''), x))\<rparr>"

definition paris_node :: TextNode where
  "paris_node = \<lparr>text' = ''Paris is the capital of France''\<rparr>"

definition stub_retriever :: "nat BaseRetriever" where
  "stub_retriever = \<lparr>aretrieve = (\<lambda>q ev x.
     (Inr [\<lparr>node = paris_node, score = 9 / 10\<rparr>], Suc x))\<rparr>"

definition empty_retriever :: "nat BaseRetriever" where
  "empty_retriever = \<lparr>aretrieve = (\<lambda>q ev x. (Inr [], Suc x))\<rparr>"

definition down_retriever :: "nat BaseRetriever" where
  "down_retriever = \<lparr>aretrieve = (\<lambda>q ev x. (Inl (Error ''index offline''), x))\<rparr>"

definition stub_predictor :: "(string, nat) LLMPredictor" where
  "stub_predictor = \<lparr>apredict = (\<lambda>p v x.
     (Inr ''What is the capital of France?'', Suc x))\<rparr>"

definition down_predictor :: "(string, nat) LLMPredictor" where
  "down_predictor = \<lparr>apredict = (\<lambda>p v x. (Inl (Error ''timeout''), x))\<rparr>"

definition stub_queryEngine :: "nat BaseQueryEngine" where
  "stub_queryEngine = \<lparr>aquery = (\<lambda>q x.
     (Inr \<lparr>response = ''Paris.'', sourceNodes = [paris_node]\<rparr>, Suc x))\<rparr>"

definition down_queryEngine :: "nat BaseQueryEngine" where
  "down_queryEngine = \<lparr>aquery = (\<lambda>q x. (Inl (Error ''engine offline''), x))\<rparr>"

definition stub_modules :: "(string, nat) modules" where
  "stub_modules =
     \<lparr>defaultCondenseQuestionPrompt = ''default template'',
      messagesToHistoryStr = (\<lambda>ms. join [CHR 0x0A] (map content ms)),
      contextSystemPrompt = (\<lambda>c. ''Context: '' @ c),
      new_OpenAI = (\<lambda>model. stub_llm),
      serviceContextFromDefaults = \<lparr>llmPredictor = stub_predictor\<rparr>,
      uuidv4 = (\<lambda>x. (''event-1'', x))\<rparr>"

text \<open>
  A world with two arrays: reference 0 is an empty array, reference 1 is an array of
  the caller that already holds one turn.
\<close>

definition stub_world :: "(string, nat) world" where
  "stub_world =
     \<lparr>heap = (\<lambda>a. if a = 1
          then [\<lparr>content = ''hello'', role = User\<rparr>, \<lparr>content = ''Hi!'', role = Assistant\<rparr>]
          else []),
      next_ref = 2, ext = 0, calls = []\<rparr>"

definition stub_simple :: "nat SimpleChatEngine" where
  "stub_simple = \<lparr>SimpleChatEngine.chatHistory = 0, llm = stub_llm\<rparr>"

definition stub_condense :: "(string, nat) CondenseQuestionChatEngine" where
  "stub_condense =
     \<lparr>queryEngine = stub_queryEngine, CondenseQuestionChatEngine.chatHistory = 0,
      serviceContext = \<lparr>llmPredictor = stub_predictor\<rparr>,
      condenseMessagePrompt = ''default template''\<rparr>"

definition stub_context :: "nat ContextChatEngine" where
  "stub_context =
     \<lparr>retriever = stub_retriever, chatModel = stub_llm, ContextChatEngine.chatHistory = 0\<rparr>"

section \<open>Concrete runs\<close>

text \<open>
  Calls of \<^verbatim>\<open>achat\<close> on the stubs: a first and a second call of each strategy on its
  own (empty) history, a call whose service throws, and a call that is given the
  caller's array (reference 1) as history.
\<close>

definition simple_run ::
  "(error + Response) \<times> nat SimpleChatEngine \<times> (string, nat) world" where
  "simple_run = SimpleChatEngine_achat stub_simple ''hi'' None stub_world"

definition simple_run2 ::
  "(error + Response) \<times> nat SimpleChatEngine \<times> (string, nat) world" where
  "simple_run2 = SimpleChatEngine_achat (fst (snd simple_run)) ''how are you?'' None
     (snd (snd simple_run))"

definition simple_run_down ::
  "(error + Response) \<times> nat SimpleChatEngine \<times> (string, nat) world" where
  "simple_run_down = SimpleChatEngine_achat (stub_simple\<lparr>llm := down_llm\<rparr>) ''hi'' None stub_world"

definition simple_run_override ::
  "(error + Response) \<times> nat SimpleChatEngine \<times> (string, nat) world" where
  "simple_run_override = SimpleChatEngine_achat stub_simple ''hi'' (Some 1) stub_world"

definition condense_run ::
  "(error + Response) \<times> (string, nat) CondenseQuestionChatEngine \<times> (string, nat) world" where
  "condense_run = CondenseQuestionChatEngine_achat stub_modules stub_condense
     ''What is X?'' None stub_world"

definition condense_run_down ::
  "(error + Response) \<times> (string, nat) CondenseQuestionChatEngine \<times> (string, nat) world" where
  "condense_run_down = CondenseQuestionChatEngine_achat stub_modules
     (stub_condense\<lparr>serviceContext := \<lparr>llmPredictor = down_predictor\<rparr>\<rparr>)
     ''What is X?'' None stub_world"

definition condense_run_query_down ::
  "(error + Response) \<times> (string, nat) CondenseQuestionChatEngine \<times> (string, nat) world" where
  "condense_run_query_down = CondenseQuestionChatEngine_achat stub_modules
     (stub_condense\<lparr>queryEngine := down_queryEngine\<rparr>)
     ''What is X?'' None stub_world"

definition condense_run_override ::
  "(error + Response) \<times> (string, nat) CondenseQuestionChatEngine \<times> (string, nat) world" where
  "condense_run_override = CondenseQuestionChatEngine_achat stub_modules stub_condense
     ''What is X?'' (Some 1) stub_world"

definition context_run ::
  "(error + Response) \<times> nat ContextChatEngine \<times> (string, nat) world" where
  "context_run = ContextChatEngine_achat stub_modules stub_context
     ''What is the capital of France?'' None stub_world"

definition context_run_empty ::
  "(error + Response) \<times> nat ContextChatEngine \<times> (string, nat) world" where
  "context_run_empty = ContextChatEngine_achat stub_modules
     (stub_context\<lparr>retriever := empty_retriever\<rparr>)
     ''What is the capital of France?'' None stub_world"

definition context_run_down ::
  "(error + Response) \<times> nat ContextChatEngine \<times> (string, nat) world" where
  "context_run_down = ContextChatEngine_achat stub_modules
     (stub_context\<lparr>chatModel := down_llm\<rparr>)
     ''What is the capital of France?'' None stub_world"

definition context_run_retrieve_down ::
  "(error + Response) \<times> nat ContextChatEngine \<times> (string, nat) world" where
  "context_run_retrieve_down = ContextChatEngine_achat stub_modules
     (stub_context\<lparr>retriever := down_retriever\<rparr>)
     ''What is the capital of France?'' None stub_world"

definition context_run_override ::
  "(error + Response) \<times> nat ContextChatEngine \<times> (string, nat) world" where
  "context_run_override = ContextChatEngine_achat stub_modules stub_context
     ''What is the capital of France?'' (Some 1) stub_world"

section \<open>Basic facts\<close>

lemma heap_push [simp]: "heap (push a m w) = (heap w)(a := heap w a @ [m])"
  and next_ref_push [simp]: "next_ref (push a m w) = next_ref w"
  and ext_push [simp]: "ext (push a m w) = ext w"
  and calls_push [simp]: "calls (push a m w) = calls w"
  by (simp_all add: push_def)

lemma queries_append [simp]: "queries (cs @ ds) = queries cs @ queries ds"
  by (induction cs rule: queries.induct) simp_all

lemma predictions_append [simp]: "predictions (cs @ ds) = predictions cs @ predictions ds"
  by (induction cs rule: predictions.induct) simp_all

lemma completions_append [simp]: "completions (cs @ ds) = completions cs @ completions ds"
  by (induction cs rule: completions.induct) simp_all

lemmas stub_defs =
  stub_llm_def down_llm_def paris_node_def stub_retriever_def empty_retriever_def
  down_retriever_def stub_predictor_def down_predictor_def stub_queryEngine_def
  down_queryEngine_def
  stub_modules_def stub_world_def stub_simple_def stub_condense_def stub_context_def

lemma no_system_simps [simp]:
  "no_system []"
  "no_system (x # xs) = (role x \<noteq> System \<and> no_system xs)"
  "no_system (xs @ ys) = (no_system xs \<and> no_system ys)"
  by (auto simp add: no_system_def)

lemma ChatMessage_Assistant_eq:
  "role (msg :: ChatMessage) = Assistant \<Longrightarrow> msg = \<lparr>content = content msg, role = Assistant\<rparr>"
  by (cases msg) simp

lemma triple_collapse: "fst r = a \<Longrightarrow> r = (a, fst (snd r), snd (snd r))"
  by (cases r) auto

lemmas achat_defs =
  SimpleChatEngine_achat_def CondenseQuestionChatEngine_achat_def ContextChatEngine_achat_def
  acondenseQuestion_def call_achat_def call_apredict_def call_aquery_def call_aretrieve_def
  systemMessage_def parentEvent_def new_Response_def nullish_def Let_def

subsection \<open>The outcomes of SimpleChatEngine.achat\<close>

lemma SimpleChatEngine_achat_Inr:
  assumes "achat (llm this) (heap w (nullish h (SimpleChatEngine.chatHistory this))
             @ [\<lparr>content = m, role = User\<rparr>]) None (ext w) = (Inr r, x)"
  shows "SimpleChatEngine_achat this m h w =
    (Inr (new_Response (content (message r)) None),
     this\<lparr>SimpleChatEngine.chatHistory := nullish h (SimpleChatEngine.chatHistory this)\<rparr>,
     w\<lparr>heap := (heap w)(nullish h (SimpleChatEngine.chatHistory this) :=
            heap w (nullish h (SimpleChatEngine.chatHistory this))
              @ [\<lparr>content = m, role = User\<rparr>, message r]),
        ext := x,
        calls := calls w @ [LlmChat (heap w (nullish h (SimpleChatEngine.chatHistory this))
             @ [\<lparr>content = m, role = User\<rparr>]) None]\<rparr>)"
  using assms by (simp add: SimpleChatEngine_achat_def call_achat_def push_def Let_def)

lemma SimpleChatEngine_achat_Inl:
  assumes "achat (llm this) (heap w (nullish h (SimpleChatEngine.chatHistory this))
             @ [\<lparr>content = m, role = User\<rparr>]) None (ext w) = (Inl e, x)"
  shows "SimpleChatEngine_achat this m h w =
    (Inl e, this,
     w\<lparr>heap := (heap w)(nullish h (SimpleChatEngine.chatHistory this) :=
            heap w (nullish h (SimpleChatEngine.chatHistory this))
              @ [\<lparr>content = m, role = User\<rparr>]),
        ext := x,
        calls := calls w @ [LlmChat (heap w (nullish h (SimpleChatEngine.chatHistory this))
             @ [\<lparr>content = m, role = User\<rparr>]) None]\<rparr>)"
  using assms by (simp add: SimpleChatEngine_achat_def call_achat_def push_def Let_def)

lemma SimpleChatEngine_achat_cases:
  obtains (failed) e x where
      "achat (llm this) (heap w (nullish h (SimpleChatEngine.chatHistory this))
             @ [\<lparr>content = m, role = User\<rparr>]) None (ext w) = (Inl e, x)"
  | (answered) r x where
      "achat (llm this) (heap w (nullish h (SimpleChatEngine.chatHistory this))
             @ [\<lparr>content = m, role = User\<rparr>]) None (ext w) = (Inr r, x)"
proof (cases "achat (llm this) (heap w (nullish h (SimpleChatEngine.chatHistory this))
             @ [\<lparr>content = m, role = User\<rparr>]) None (ext w)")
  case (Pair r x)
  with failed answered show ?thesis by (cases r) auto
qed

lemma SimpleChatEngine_achat_turn:
  assumes "SimpleChatEngine_achat s m None w = (Inr r1, s', w')"
  shows "\<exists>cr x. achat (llm s) (heap w (SimpleChatEngine.chatHistory s)
                     @ [\<lparr>content = m, role = User\<rparr>]) None (ext w) = (Inr cr, x)
      \<and> response r1 = content (message cr)
      \<and> heap w' (SimpleChatEngine.chatHistory s') = heap w (SimpleChatEngine.chatHistory s)
           @ [\<lparr>content = m, role = User\<rparr>, message cr]"
proof (cases rule: SimpleChatEngine_achat_cases [where this = s and w = w and h = None and m = m])
  case (failed e x)
  from SimpleChatEngine_achat_Inl [OF this] assms show ?thesis by simp
next
  case (answered cr x)
  from SimpleChatEngine_achat_Inr [OF this] assms answered show ?thesis
    by (auto simp add: nullish_def new_Response_def)
qed

lemma SimpleChatEngine_achat_failed:
  assumes run: "SimpleChatEngine_achat s m h w = (Inl e, s', w')"
  shows "s' = s
      \<and> heap w' = (heap w)(nullish h (SimpleChatEngine.chatHistory s) :=
           heap w (nullish h (SimpleChatEngine.chatHistory s))
             @ [\<lparr>content = m, role = User\<rparr>])"
proof (cases rule: SimpleChatEngine_achat_cases [where this = s and w = w and h = h and m = m])
  case (failed e x)
  from SimpleChatEngine_achat_Inl [OF this] run show ?thesis by auto
next
  case (answered r x)
  from SimpleChatEngine_achat_Inr [OF this] run show ?thesis by simp
qed

lemma SimpleChatEngine_achat_override:
  assumes run: "SimpleChatEngine_achat s m (Some a) w = (Inr r, s', w')"
  shows "SimpleChatEngine.chatHistory s' = a
      \<and> (\<exists>reply. heap w' = (heap w)(a := heap w a @ [\<lparr>content = m, role = User\<rparr>, reply]))"
proof (cases rule: SimpleChatEngine_achat_cases
    [where this = s and w = w and h = "Some a" and m = m])
  case (failed e x)
  from SimpleChatEngine_achat_Inl [OF this] run show ?thesis by simp
next
  case (answered r x)
  from SimpleChatEngine_achat_Inr [OF this] run show ?thesis
    by (auto simp add: nullish_def)
qed

lemma SimpleChatEngine_achat_completions:
  "completions (calls (snd (snd (SimpleChatEngine_achat s m h w))))
     = completions (calls w)
       @ [heap w (nullish h (SimpleChatEngine.chatHistory s)) @ [\<lparr>content = m, role = User\<rparr>]]"
proof (cases rule: SimpleChatEngine_achat_cases [where this = s and w = w and h = h and m = m])
  case (failed e x)
  from SimpleChatEngine_achat_Inl [OF this] show ?thesis by simp
next
  case (answered r x)
  from SimpleChatEngine_achat_Inr [OF this] show ?thesis by simp
qed

lemma SimpleChatEngine_new_empty:
  "heap (snd (SimpleChatEngine_new I None l w))
     (SimpleChatEngine.chatHistory (fst (SimpleChatEngine_new I None l w))) = []"
  by (simp add: SimpleChatEngine_new_def alloc_def)

subsection \<open>The outcomes of CondenseQuestionChatEngine.achat\<close>

lemma acondenseQuestion_eq:
  assumes "apredict (llmPredictor (serviceContext this)) (defaultCondenseQuestionPrompt I)
             \<lparr>question = m, chat_history = messagesToHistoryStr I (heap w a)\<rparr> (ext w) = (r, x)"
  shows "acondenseQuestion I this a m w =
    (r, w\<lparr>ext := x,
          calls := calls w @ [Predict (defaultCondenseQuestionPrompt I)
             \<lparr>question = m, chat_history = messagesToHistoryStr I (heap w a)\<rparr>]\<rparr>)"
  using assms by (simp add: acondenseQuestion_def call_apredict_def Let_def)

lemma acondenseQuestion_frame:
  assumes "acondenseQuestion I this a m w = (r, w1)"
  shows "heap w1 = heap w \<and> next_ref w1 = next_ref w
    \<and> (\<exists>p x. apredict (llmPredictor (serviceContext this)) p
             \<lparr>question = m, chat_history = messagesToHistoryStr I (heap w a)\<rparr> (ext w) = (r, x)
          \<and> ext w1 = x
          \<and> calls w1 = calls w @ [Predict p
               \<lparr>question = m, chat_history = messagesToHistoryStr I (heap w a)\<rparr>])"
  using assms
  by (auto simp add: acondenseQuestion_def call_apredict_def Let_def split: prod.splits)

lemma acondenseQuestion_template:
  "map fst (predictions (calls (snd (acondenseQuestion I this a m w))))
     = map fst (predictions (calls w)) @ [defaultCondenseQuestionPrompt I]"
  by (simp add: acondenseQuestion_def call_apredict_def Let_def split: prod.splits)

lemma CondenseQuestionChatEngine_achat_Inl1:
  assumes "acondenseQuestion I this (nullish h (CondenseQuestionChatEngine.chatHistory this)) m w
             = (Inl e, w1)"
  shows "CondenseQuestionChatEngine_achat I this m h w = (Inl e, this, w1)"
  using assms by (simp add: CondenseQuestionChatEngine_achat_def Let_def)

lemma CondenseQuestionChatEngine_achat_Inl2:
  assumes "acondenseQuestion I this (nullish h (CondenseQuestionChatEngine.chatHistory this)) m w
             = (Inr q, w1)"
    and "aquery (queryEngine this) q (ext w1) = (Inl e, x)"
  shows "CondenseQuestionChatEngine_achat I this m h w =
           (Inl e, this, w1\<lparr>ext := x, calls := calls w1 @ [Query q]\<rparr>)"
  using assms by (simp add: CondenseQuestionChatEngine_achat_def call_aquery_def Let_def)

lemma CondenseQuestionChatEngine_achat_Inr:
  assumes "acondenseQuestion I this (nullish h (CondenseQuestionChatEngine.chatHistory this)) m w
             = (Inr q, w1)"
    and "aquery (queryEngine this) q (ext w1) = (Inr resp, x)"
  shows "CondenseQuestionChatEngine_achat I this m h w =
           (Inr resp, this,
            w1\<lparr>heap := (heap w1)(nullish h (CondenseQuestionChatEngine.chatHistory this) :=
                   heap w1 (nullish h (CondenseQuestionChatEngine.chatHistory this))
                     @ [\<lparr>content = m, role = User\<rparr>,
                        \<lparr>content = response resp, role = Assistant\<rparr>]),
               ext := x, calls := calls w1 @ [Query q]\<rparr>)"
  using assms
  by (simp add: CondenseQuestionChatEngine_achat_def call_aquery_def push_def Let_def)

lemma CondenseQuestionChatEngine_achat_cases:
  obtains (condense_failed) e w1 where
      "acondenseQuestion I this (nullish h (CondenseQuestionChatEngine.chatHistory this)) m w
         = (Inl e, w1)"
  | (query_failed) q w1 e x where
      "acondenseQuestion I this (nullish h (CondenseQuestionChatEngine.chatHistory this)) m w
         = (Inr q, w1)"
      "aquery (queryEngine this) q (ext w1) = (Inl e, x)"
  | (answered) q w1 resp x where
      "acondenseQuestion I this (nullish h (CondenseQuestionChatEngine.chatHistory this)) m w
         = (Inr q, w1)"
      "aquery (queryEngine this) q (ext w1) = (Inr resp, x)"
proof (cases "acondenseQuestion I this
                (nullish h (CondenseQuestionChatEngine.chatHistory this)) m w")
  case outer: (Pair r w1)
  show ?thesis
  proof (cases r)
    case (Inl e)
    with outer condense_failed show ?thesis by simp
  next
    case (Inr q)
    show ?thesis
    proof (cases "aquery (queryEngine this) q (ext w1)")
      case inner: (Pair r2 x)
      with outer Inr query_failed answered show ?thesis by (cases r2) auto
    qed
  qed
qed

lemma CondenseQuestionChatEngine_achat_turn:
  assumes "CondenseQuestionChatEngine_achat I c m None w = (Inr r2, c', w')"
  shows "\<exists>q x0 x. aquery (queryEngine c) q x0 = (Inr r2, x)
      \<and> queries (calls w') = queries (calls w) @ [q]
      \<and> heap w' (CondenseQuestionChatEngine.chatHistory c')
          = heap w (CondenseQuestionChatEngine.chatHistory c)
           @ [\<lparr>content = m, role = User\<rparr>, \<lparr>content = response r2, role = Assistant\<rparr>]"
proof (cases rule: CondenseQuestionChatEngine_achat_cases [where I = I and this = c and h = None and m = m and w = w])
  case (condense_failed e w1)
  from CondenseQuestionChatEngine_achat_Inl1 [OF this] assms show ?thesis by simp
next
  case (query_failed q w1 e x)
  from CondenseQuestionChatEngine_achat_Inl2 [OF this] assms show ?thesis by simp
next
  case (answered q w1 resp x)
  from acondenseQuestion_frame [OF answered(1)]
  have "heap w1 = heap w" and "queries (calls w1) = queries (calls w)"
    by auto
  with CondenseQuestionChatEngine_achat_Inr [OF answered] assms answered(2) show ?thesis
    by (auto simp add: nullish_def)
qed

lemma CondenseQuestionChatEngine_achat_failed:
  assumes run: "CondenseQuestionChatEngine_achat I c m h w = (Inl e, c', w')"
  shows "c' = c \<and> heap w' = heap w"
proof (cases rule: CondenseQuestionChatEngine_achat_cases
          [where I = I and this = c and h = h and m = m and w = w])
  case (condense_failed e w1)
  from CondenseQuestionChatEngine_achat_Inl1 [OF this] run
    acondenseQuestion_frame [OF condense_failed]
  show ?thesis by simp
next
  case (query_failed q w1 e x)
  from CondenseQuestionChatEngine_achat_Inl2 [OF this] run
    acondenseQuestion_frame [OF query_failed(1)]
  show ?thesis by auto
next
  case (answered q w1 resp x)
  from CondenseQuestionChatEngine_achat_Inr [OF this] run show ?thesis by simp
qed

lemma CondenseQuestionChatEngine_achat_override:
  assumes run: "CondenseQuestionChatEngine_achat I c m (Some a) w = (Inr r, c', w')"
  shows "c' = c
      \<and> heap w' = (heap w)(a := heap w a
           @ [\<lparr>content = m, role = User\<rparr>, \<lparr>content = response r, role = Assistant\<rparr>])"
proof (cases rule: CondenseQuestionChatEngine_achat_cases
        [where I = I and this = c and h = "Some a" and m = m and w = w])
  case (condense_failed e w1)
  from CondenseQuestionChatEngine_achat_Inl1 [OF this] run show ?thesis by simp
next
  case (query_failed q w1 e x)
  from CondenseQuestionChatEngine_achat_Inl2 [OF this] run show ?thesis by simp
next
  case (answered q w1 resp x)
  from acondenseQuestion_frame [OF answered(1)] have "heap w1 = heap w"
    by simp
  with CondenseQuestionChatEngine_achat_Inr [OF answered] run show ?thesis
    by (auto simp add: nullish_def)
qed

lemma CondenseQuestionChatEngine_achat_predictions:
  "map snd (predictions (calls (snd (snd (CondenseQuestionChatEngine_achat I c m h w)))))
     = map snd (predictions (calls w))
       @ [\<lparr>question = m, chat_history = messagesToHistoryStr I
            (heap w (nullish h (CondenseQuestionChatEngine.chatHistory c)))\<rparr>]"
proof (cases rule: CondenseQuestionChatEngine_achat_cases
        [where I = I and this = c and h = h and m = m and w = w])
  case (condense_failed e w1)
  from CondenseQuestionChatEngine_achat_Inl1 [OF this]
    acondenseQuestion_frame [OF condense_failed]
  show ?thesis by auto
next
  case (query_failed q w1 e x)
  from CondenseQuestionChatEngine_achat_Inl2 [OF this]
    acondenseQuestion_frame [OF query_failed(1)]
  show ?thesis by auto
next
  case (answered q w1 resp x)
  from CondenseQuestionChatEngine_achat_Inr [OF this]
    acondenseQuestion_frame [OF answered(1)]
  show ?thesis by auto
qed

subsection \<open>The outcomes of ContextChatEngine.achat\<close>

lemma ContextChatEngine_achat_Inl1:
  assumes "uuidv4 I (ext w) = (u, x0)"
    and "aretrieve (retriever this) m (Some (parentEvent u)) x0 = (Inl e, x1)"
  shows "ContextChatEngine_achat I this m h w =
           (Inl e, this, w\<lparr>ext := x1, calls := calls w @ [Retrieve m (Some (parentEvent u))]\<rparr>)"
  using assms
  by (simp add: ContextChatEngine_achat_def call_aretrieve_def Let_def)

lemma ContextChatEngine_achat_Inl2:
  assumes "uuidv4 I (ext w) = (u, x0)"
    and "aretrieve (retriever this) m (Some (parentEvent u)) x0 = (Inr items, x1)"
    and "achat (chatModel this)
           (systemMessage I items # heap w (nullish h (ContextChatEngine.chatHistory this))
              @ [\<lparr>content = m, role = User\<rparr>]) (Some (parentEvent u)) x1 = (Inl e, x2)"
  shows "ContextChatEngine_achat I this m h w =
           (Inl e, this,
            w\<lparr>heap := (heap w)(nullish h (ContextChatEngine.chatHistory this) :=
                   heap w (nullish h (ContextChatEngine.chatHistory this))
                     @ [\<lparr>content = m, role = User\<rparr>]),
              ext := x2,
              calls := calls w @ [Retrieve m (Some (parentEvent u)),
                LlmChat (systemMessage I items
                     # heap w (nullish h (ContextChatEngine.chatHistory this))
                     @ [\<lparr>content = m, role = User\<rparr>]) (Some (parentEvent u))]\<rparr>)"
  using assms
  by (simp add: ContextChatEngine_achat_def call_aretrieve_def call_achat_def push_def Let_def)

lemma ContextChatEngine_achat_Inr:
  assumes "uuidv4 I (ext w) = (u, x0)"
    and "aretrieve (retriever this) m (Some (parentEvent u)) x0 = (Inr items, x1)"
    and "achat (chatModel this)
           (systemMessage I items # heap w (nullish h (ContextChatEngine.chatHistory this))
              @ [\<lparr>content = m, role = User\<rparr>]) (Some (parentEvent u)) x1 = (Inr cr, x2)"
  shows "ContextChatEngine_achat I this m h w =
           (Inr (new_Response (content (message cr)) (Some (map node items))),
            this\<lparr>ContextChatEngine.chatHistory :=
                    nullish h (ContextChatEngine.chatHistory this)\<rparr>,
            w\<lparr>heap := (heap w)(nullish h (ContextChatEngine.chatHistory this) :=
                   heap w (nullish h (ContextChatEngine.chatHistory this))
                     @ [\<lparr>content = m, role = User\<rparr>, message cr]),
              ext := x2,
              calls := calls w @ [Retrieve m (Some (parentEvent u)),
                LlmChat (systemMessage I items
                     # heap w (nullish h (ContextChatEngine.chatHistory this))
                     @ [\<lparr>content = m, role = User\<rparr>]) (Some (parentEvent u))]\<rparr>)"
  using assms
  by (simp add: ContextChatEngine_achat_def call_aretrieve_def call_achat_def push_def Let_def)

lemma ContextChatEngine_achat_cases:
  obtains (retrieve_failed) u x0 e x1 where
      "uuidv4 I (ext w) = (u, x0)"
      "aretrieve (retriever this) m (Some (parentEvent u)) x0 = (Inl e, x1)"
  | (chat_failed) u x0 items x1 e x2 where
      "uuidv4 I (ext w) = (u, x0)"
      "aretrieve (retriever this) m (Some (parentEvent u)) x0 = (Inr items, x1)"
      "achat (chatModel this)
           (systemMessage I items # heap w (nullish h (ContextChatEngine.chatHistory this))
              @ [\<lparr>content = m, role = User\<rparr>]) (Some (parentEvent u)) x1 = (Inl e, x2)"
  | (answered) u x0 items x1 cr x2 where
      "uuidv4 I (ext w) = (u, x0)"
      "aretrieve (retriever this) m (Some (parentEvent u)) x0 = (Inr items, x1)"
      "achat (chatModel this)
           (systemMessage I items # heap w (nullish h (ContextChatEngine.chatHistory this))
              @ [\<lparr>content = m, role = User\<rparr>]) (Some (parentEvent u)) x1 = (Inr cr, x2)"
proof (cases "uuidv4 I (ext w)")
  case uu: (Pair u x0)
  show ?thesis
  proof (cases "aretrieve (retriever this) m (Some (parentEvent u)) x0")
    case re: (Pair r x1)
    show ?thesis
    proof (cases r)
      case (Inl e)
      with uu re retrieve_failed show ?thesis by simp
    next
      case (Inr items)
      show ?thesis
      proof (cases "achat (chatModel this)
           (systemMessage I items # heap w (nullish h (ContextChatEngine.chatHistory this))
              @ [\<lparr>content = m, role = User\<rparr>]) (Some (parentEvent u)) x1")
        case ch: (Pair r2 x2)
        with uu re Inr chat_failed answered show ?thesis by (cases r2) auto
      qed
    qed
  qed
qed

lemma ContextChatEngine_achat_turn:
  assumes "ContextChatEngine_achat I t m None w = (Inr r3, t', w')"
  shows "\<exists>ms ev x0 cr x. achat (chatModel t) ms ev x0 = (Inr cr, x)
      \<and> completions (calls w') = completions (calls w) @ [ms]
      \<and> response r3 = content (message cr)
      \<and> heap w' (ContextChatEngine.chatHistory t') = heap w (ContextChatEngine.chatHistory t)
           @ [\<lparr>content = m, role = User\<rparr>, message cr]"
proof (cases rule: ContextChatEngine_achat_cases [where I = I and this = t and h = None and m = m and w = w])
  case (retrieve_failed u x0 e x1)
  from ContextChatEngine_achat_Inl1 [OF this] assms show ?thesis by simp
next
  case (chat_failed u x0 items x1 e x2)
  from ContextChatEngine_achat_Inl2 [OF this] assms show ?thesis by simp
next
  case (answered u x0 items x1 cr x2)
  from ContextChatEngine_achat_Inr [OF answered] assms answered(3) show ?thesis
    by (auto simp add: nullish_def new_Response_def)
qed

lemma ContextChatEngine_achat_failed:
  assumes run: "ContextChatEngine_achat I t m h w = (Inl e, t', w')"
  shows "t' = t
      \<and> (completions (calls w') = completions (calls w) \<and> heap w' = heap w
         \<or> (\<exists>ms. completions (calls w') = completions (calls w) @ [ms])
           \<and> heap w' = (heap w)(nullish h (ContextChatEngine.chatHistory t) :=
                heap w (nullish h (ContextChatEngine.chatHistory t))
                  @ [\<lparr>content = m, role = User\<rparr>]))"
proof (cases rule: ContextChatEngine_achat_cases
          [where I = I and this = t and h = h and m = m and w = w])
  case (retrieve_failed u x0 e x1)
  from ContextChatEngine_achat_Inl1 [OF this] run show ?thesis by auto
next
  case (chat_failed u x0 items x1 e x2)
  from ContextChatEngine_achat_Inl2 [OF this] run show ?thesis by auto
next
  case (answered u x0 items x1 cr x2)
  from ContextChatEngine_achat_Inr [OF this] run show ?thesis by simp
qed

lemma ContextChatEngine_achat_override:
  assumes run: "ContextChatEngine_achat I t m (Some a) w = (Inr r, t', w')"
  shows "ContextChatEngine.chatHistory t' = a
      \<and> (\<exists>reply. heap w' = (heap w)(a := heap w a @ [\<lparr>content = m, role = User\<rparr>, reply]))"
proof (cases rule: ContextChatEngine_achat_cases
        [where I = I and this = t and h = "Some a" and m = m and w = w])
  case (retrieve_failed u x0 e x1)
  from ContextChatEngine_achat_Inl1 [OF this] run show ?thesis by simp
next
  case (chat_failed u x0 items x1 e x2)
  from ContextChatEngine_achat_Inl2 [OF this] run show ?thesis by simp
next
  case (answered u x0 items x1 cr x2)
  from ContextChatEngine_achat_Inr [OF this] run show ?thesis
    by (auto simp add: nullish_def)
qed

lemma ContextChatEngine_achat_calls:
  assumes "uuidv4 I (ext w) = (u, x0)"
    and "aretrieve (retriever t) m (Some (parentEvent u)) x0 = (Inr items, x1)"
  shows "calls (snd (snd (ContextChatEngine_achat I t m h w)))
     = calls w @ [Retrieve m (Some (parentEvent u)),
            LlmChat (systemMessage I items
                 # heap w (nullish h (ContextChatEngine.chatHistory t))
                 @ [\<lparr>content = m, role = User\<rparr>]) (Some (parentEvent u))]"
proof (cases "achat (chatModel t)
           (systemMessage I items # heap w (nullish h (ContextChatEngine.chatHistory t))
              @ [\<lparr>content = m, role = User\<rparr>]) (Some (parentEvent u)) x1")
  case (Pair r x2)
  show ?thesis
  proof (cases r)
    case (Inl e)
    with Pair have "achat (chatModel t)
           (systemMessage I items # heap w (nullish h (ContextChatEngine.chatHistory t))
              @ [\<lparr>content = m, role = User\<rparr>]) (Some (parentEvent u)) x1 = (Inl e, x2)"
      by simp
    from ContextChatEngine_achat_Inl2 [OF assms this] show ?thesis
      by simp
  next
    case (Inr cr)
    with Pair have "achat (chatModel t)
           (systemMessage I items # heap w (nullish h (ContextChatEngine.chatHistory t))
              @ [\<lparr>content = m, role = User\<rparr>]) (Some (parentEvent u)) x1 = (Inr cr, x2)"
      by simp
    from ContextChatEngine_achat_Inr [OF assms this] show ?thesis
      by simp
  qed
qed

subsection \<open>The concrete runs, evaluated\<close>

lemma simple_run_eq:
  "fst simple_run = Inr \<lparr>response = ''Paris.'', sourceNodes = []\<rparr>"
  "SimpleChatEngine.chatHistory (fst (snd simple_run)) = 0"
  "heap (snd (snd simple_run)) 0
     = [\<lparr>content = ''hi'', role = User\<rparr>, \<lparr>content = ''Paris.'', role = Assistant\<rparr>]"
  "calls (snd (snd simple_run)) = [LlmChat [\<lparr>content = ''hi'', role = User\<rparr>] None]"
  by (simp_all add: simple_run_def achat_defs stub_defs)

lemma simple_run2_eq:
  "calls (snd (snd simple_run2)) = [LlmChat [\<lparr>content = ''hi'', role = User\<rparr>] None,
     LlmChat [\<lparr>content = ''hi'', role = User\<rparr>, \<lparr>content = ''Paris.'', role = Assistant\<rparr>,
       \<lparr>content = ''how are you?'', role = User\<rparr>] None]"
  by (simp add: simple_run2_def simple_run_def achat_defs stub_defs)

lemma condense_run_eq:
  "fst condense_run = Inr \<lparr>response = ''Paris.'', sourceNodes = [paris_node]\<rparr>"
  "CondenseQuestionChatEngine.chatHistory (fst (snd condense_run)) = 0"
  "heap (snd (snd condense_run)) 0
     = [\<lparr>content = ''What is X?'', role = User\<rparr>, \<lparr>content = ''Paris.'', role = Assistant\<rparr>]"
  "calls (snd (snd condense_run))
     = [Predict ''default template'' \<lparr>question = ''What is X?'', chat_history = []\<rparr>,
        Query ''What is the capital of France?'']"
  by (simp_all add: condense_run_def achat_defs stub_defs)

lemma context_run_eq:
  "fst context_run = Inr \<lparr>response = ''Paris.'', sourceNodes = [paris_node]\<rparr>"
  "ContextChatEngine.chatHistory (fst (snd context_run)) = 0"
  "heap (snd (snd context_run)) 0
     = [\<lparr>content = ''What is the capital of France?'', role = User\<rparr>,
        \<lparr>content = ''Paris.'', role = Assistant\<rparr>]"
  "calls (snd (snd context_run))
     = [Retrieve ''What is the capital of France?'' (Some (parentEvent ''event-1'')),
        LlmChat [\<lparr>content = ''Context: Paris is the capital of France'', role = System\<rparr>,
                 \<lparr>content = ''What is the capital of France?'', role = User\<rparr>]
          (Some (parentEvent ''event-1''))]"
  by (simp_all add: context_run_def achat_defs stub_defs)

lemma simple_run_down_eq:
  "fst simple_run_down = Inl (Error ''rate limit'')"
  "heap (snd (snd simple_run_down)) 0 = [\<lparr>content = ''hi'', role = User\<rparr>]"
  by (simp_all add: simple_run_down_def achat_defs stub_defs)

lemma simple_run_override_eq:
  "fst simple_run_override = Inr \<lparr>response = ''Paris.'', sourceNodes = []\<rparr>"
  "SimpleChatEngine.chatHistory (fst (snd simple_run_override)) = 1"
  "heap (snd (snd simple_run_override)) 1
     = [\<lparr>content = ''hello'', role = User\<rparr>, \<lparr>content = ''Hi!'', role = Assistant\<rparr>,
        \<lparr>content = ''hi'', role = User\<rparr>, \<lparr>content = ''Paris.'', role = Assistant\<rparr>]"
  by (simp_all add: simple_run_override_def achat_defs stub_defs)

lemma condense_run_down_eq:
  "fst condense_run_down = Inl (Error ''timeout'')"
  "heap (snd (snd condense_run_down)) = heap stub_world"
  by (simp_all add: condense_run_down_def achat_defs stub_defs)

lemma condense_run_query_down_eq:
  "fst condense_run_query_down = Inl (Error ''engine offline'')"
  "fst (snd condense_run_query_down) = stub_condense\<lparr>queryEngine := down_queryEngine\<rparr>"
  "heap (snd (snd condense_run_query_down)) = heap stub_world"
  by (simp_all add: condense_run_query_down_def achat_defs stub_defs)

lemma condense_run_override_eq:
  "fst condense_run_override = Inr \<lparr>response = ''Paris.'', sourceNodes = [paris_node]\<rparr>"
  "CondenseQuestionChatEngine.chatHistory (fst (snd condense_run_override)) = 0"
  "heap (snd (snd condense_run_override)) 0 = []"
  "heap (snd (snd condense_run_override)) 1
     = [\<lparr>content = ''hello'', role = User\<rparr>, \<lparr>content = ''Hi!'', role = Assistant\<rparr>,
        \<lparr>content = ''What is X?'', role = User\<rparr>, \<lparr>content = ''Paris.'', role = Assistant\<rparr>]"
  by (simp_all add: condense_run_override_def achat_defs stub_defs)

lemma context_run_empty_eq:
  "fst context_run_empty = Inr \<lparr>response = ''Paris.'', sourceNodes = []\<rparr>"
  "completions (calls (snd (snd context_run_empty)))
     = [[\<lparr>content = ''Context: '', role = System\<rparr>,
         \<lparr>content = ''What is the capital of France?'', role = User\<rparr>]]"
  by (simp_all add: context_run_empty_def achat_defs stub_defs)

lemma context_run_down_eq:
  "fst context_run_down = Inl (Error ''rate limit'')"
  "heap (snd (snd context_run_down)) 0
     = [\<lparr>content = ''What is the capital of France?'', role = User\<rparr>]"
  by (simp_all add: context_run_down_def achat_defs stub_defs)

lemma context_run_retrieve_down_eq:
  "fst context_run_retrieve_down = Inl (Error ''index offline'')"
  "fst (snd context_run_retrieve_down) = stub_context\<lparr>retriever := down_retriever\<rparr>"
  "heap (snd (snd context_run_retrieve_down)) = heap stub_world"
  by (simp_all add: context_run_retrieve_down_def achat_defs stub_defs)

lemma context_run_override_eq:
  "fst context_run_override = Inr \<lparr>response = ''Paris.'', sourceNodes = [paris_node]\<rparr>"
  "ContextChatEngine.chatHistory (fst (snd context_run_override)) = 1"
  "heap (snd (snd context_run_override)) 1
     = [\<lparr>content = ''hello'', role = User\<rparr>, \<lparr>content = ''Hi!'', role = Assistant\<rparr>,
        \<lparr>content = ''What is the capital of France?'', role = User\<rparr>,
        \<lparr>content = ''Paris.'', role = Assistant\<rparr>]"
  by (simp_all add: context_run_override_def achat_defs stub_defs)

section \<open>Properties of the Direct strategy\<close>

text \<open>
  C9. In the Direct strategy (SimpleChatEngine), every successful call of
  \<^verbatim>\<open>achat\<close>, with or without a history argument, returns a Response whose source
  items are the empty sequence.
\<close>

theorem SimpleChatEngine_achat_no_sources:
  assumes "SimpleChatEngine_achat this m h w = (Inr resp, this', w')"
  shows "sourceNodes resp = []"
proof (cases "achat (llm this) (heap w (nullish h (SimpleChatEngine.chatHistory this))
             @ [\<lparr>content = m, role = User\<rparr>]) None (ext w)")
  case (Pair r x)
  show ?thesis
  proof (cases r)
    case (Inl e)
    with Pair assms show ?thesis
      by (simp add: SimpleChatEngine_achat_Inl)
  next
    case (Inr cr)
    with Pair assms show ?thesis
      by (auto simp add: SimpleChatEngine_achat_Inr new_Response_def)
  qed
qed

theorem SimpleChatEngine_achat_no_sources_witness:
  "fst (SimpleChatEngine_achat stub_simple ''hi'' None stub_world)
     = Inr \<lparr>response = ''Paris.'', sourceNodes = []\<rparr>
   \<and> sourceNodes \<lparr>response = ''Paris.'', sourceNodes = []\<rparr> = []"
proof -
  have run: "fst (SimpleChatEngine_achat stub_simple ''hi'' None stub_world)
     = Inr \<lparr>response = ''Paris.'', sourceNodes = []\<rparr>"
    by (simp add: SimpleChatEngine_achat_def call_achat_def nullish_def new_Response_def
          Let_def stub_defs)
  then obtain s' w' where "SimpleChatEngine_achat stub_simple ''hi'' None stub_world
     = (Inr \<lparr>response = ''Paris.'', sourceNodes = []\<rparr>, s', w')"
    by (metis prod.collapse)
  from SimpleChatEngine_achat_no_sources [OF this] run show ?thesis
    by simp
qed

text \<open>
  C7. Two sequential calls \<^verbatim>\<open>achat(m1)\<close>, \<^verbatim>\<open>achat(m2)\<close> on one SimpleChatEngine
  without history argument, starting from an empty owned history, the first call
  successful: the first call sends the one-message sequence (user m1) to the completion
  service, and the second call sends the three-message sequence (user m1, the reply
  of the first call, user m2), whatever the outcome of the second call. The reply is the
  message that the service returned; its content is the text of the first Response.
\<close>

theorem direct_second_call_sends_three_messages:
  assumes empty: "heap w (SimpleChatEngine.chatHistory s) = []"
    and first: "SimpleChatEngine_achat s m1 None w = (Inr r1, s1, w1)"
    and second: "SimpleChatEngine_achat s1 m2 None w1 = (res2, s2, w2)"
  shows "\<exists>reply1. fst (achat (llm s) [\<lparr>content = m1, role = User\<rparr>] None (ext w))
                    = Inr \<lparr>message = reply1\<rparr>
      \<and> content reply1 = response r1
      \<and> calls w2 = calls w @ [LlmChat [\<lparr>content = m1, role = User\<rparr>] None,
           LlmChat [\<lparr>content = m1, role = User\<rparr>, reply1, \<lparr>content = m2, role = User\<rparr>] None]"
proof (cases rule: SimpleChatEngine_achat_cases [where this = s and w = w and h = None and m = m1])
  case (failed e x)
  from SimpleChatEngine_achat_Inl [OF this] first show ?thesis by simp
next
  case (answered cr x)
  from SimpleChatEngine_achat_Inr [OF answered] first empty
  have r1: "response r1 = content (message cr)"
    and s1: "SimpleChatEngine.chatHistory s1 = SimpleChatEngine.chatHistory s" "llm s1 = llm s"
    and h1: "heap w1 (SimpleChatEngine.chatHistory s) = [\<lparr>content = m1, role = User\<rparr>, message cr]"
    and c1: "calls w1 = calls w @ [LlmChat [\<lparr>content = m1, role = User\<rparr>] None]"
    by (auto simp add: nullish_def new_Response_def)
  have c2: "calls w2 = calls w1 @ [LlmChat (heap w1 (SimpleChatEngine.chatHistory s1)
              @ [\<lparr>content = m2, role = User\<rparr>]) None]"
  proof (cases rule: SimpleChatEngine_achat_cases
      [where this = s1 and w = w1 and h = None and m = m2])
    case (failed e x)
    from SimpleChatEngine_achat_Inl [OF this] second show ?thesis
      by (auto simp add: nullish_def)
  next
    case (answered r x)
    from SimpleChatEngine_achat_Inr [OF this] second show ?thesis
      by (auto simp add: nullish_def)
  qed
  have "fst (achat (llm s) [\<lparr>content = m1, role = User\<rparr>] None (ext w))
          = Inr \<lparr>message = message cr\<rparr>"
    using answered empty by (simp add: nullish_def)
  with r1 s1 h1 c1 c2 show ?thesis
    by auto
qed

theorem direct_second_call_sends_three_messages_witness:
  "heap stub_world (SimpleChatEngine.chatHistory stub_simple) = []
   \<and> fst simple_run = Inr \<lparr>response = ''Paris.'', sourceNodes = []\<rparr>
   \<and> calls (snd (snd simple_run2))
       = calls stub_world @ [LlmChat [\<lparr>content = ''hi'', role = User\<rparr>] None,
           LlmChat [\<lparr>content = ''hi'', role = User\<rparr>,
                    \<lparr>content = ''Paris.'', role = Assistant\<rparr>,
                    \<lparr>content = ''how are you?'', role = User\<rparr>] None]"
proof -
  have empty: "heap stub_world (SimpleChatEngine.chatHistory stub_simple) = []"
    by (simp add: stub_defs)
  have first: "SimpleChatEngine_achat stub_simple ''hi'' None stub_world
      = (Inr \<lparr>response = ''Paris.'', sourceNodes = []\<rparr>, fst (snd simple_run),
         snd (snd simple_run))"
    unfolding simple_run_def [symmetric] by (rule triple_collapse) (rule simple_run_eq(1))
  have second: "SimpleChatEngine_achat (fst (snd simple_run)) ''how are you?'' None
      (snd (snd simple_run)) = (fst simple_run2, fst (snd simple_run2), snd (snd simple_run2))"
    by (simp add: simple_run2_def)
  from direct_second_call_sends_three_messages [OF empty first second]
  obtain reply1 where
    "fst (achat (llm stub_simple) [\<lparr>content = ''hi'', role = User\<rparr>] None (ext stub_world))
       = Inr \<lparr>message = reply1\<rparr>"
    and "calls (snd (snd simple_run2))
       = calls stub_world @ [LlmChat [\<lparr>content = ''hi'', role = User\<rparr>] None,
           LlmChat [\<lparr>content = ''hi'', role = User\<rparr>, reply1,
                    \<lparr>content = ''how are you?'', role = User\<rparr>] None]"
    by blast
  moreover from this(1) have "reply1 = \<lparr>content = ''Paris.'', role = Assistant\<rparr>"
    by (simp add: stub_defs)
  ultimately show ?thesis
    using empty simple_run_eq(1) by (metis fst_conv)
qed

section \<open>Properties of the Condense-then-Query strategy\<close>

text \<open>
  C1, as the spec states it: when the history passed to \<^verbatim>\<open>achat\<close> is empty, the
  question passed on to the query engine is the message itself. The code has no such
  pass-through: \<^verbatim>\<open>acondenseQuestion\<close> calls the predictor whatever the history is.
  With an empty history, the message \<^verbatim>\<open>What is X?\<close> and a predictor that answers
  \<^verbatim>\<open>What is the capital of France?\<close>, the query engine receives the predictor's
  answer and not the message.
\<close>

theorem condense_empty_history_counterexample:
  "heap stub_world (CondenseQuestionChatEngine.chatHistory stub_condense) = []
   \<and> queries (calls (snd (snd (CondenseQuestionChatEngine_achat stub_modules stub_condense
         ''What is X?'' None stub_world)))) = [''What is the capital of France?'']
   \<and> queries (calls (snd (snd (CondenseQuestionChatEngine_achat stub_modules stub_condense
         ''What is X?'' None stub_world)))) \<noteq> [''What is X?'']"
  by (simp add: CondenseQuestionChatEngine_achat_def acondenseQuestion_def call_apredict_def
        call_aquery_def nullish_def Let_def stub_defs)

text \<open>
  C1, amended: when the history passed to \<^verbatim>\<open>achat\<close> is empty, the condensation step
  still calls the predictor, with the variables question = the message and
  chat_history = the rendering of the empty history, and the question passed on to the
  query engine is the string that the predictor returned.
\<close>

theorem condense_empty_history_question:
  assumes "heap w (nullish h (CondenseQuestionChatEngine.chatHistory this)) = []"
    and "acondenseQuestion I this (nullish h (CondenseQuestionChatEngine.chatHistory this)) m w
           = (Inr q, w1)"
    and "CondenseQuestionChatEngine_achat I this m h w = (res, this', w')"
  shows "(\<exists>p x. apredict (llmPredictor (serviceContext this)) p
             \<lparr>question = m, chat_history = messagesToHistoryStr I []\<rparr> (ext w) = (Inr q, x))
    \<and> map snd (predictions (calls w')) = map snd (predictions (calls w))
         @ [\<lparr>question = m, chat_history = messagesToHistoryStr I []\<rparr>]
    \<and> queries (calls w') = queries (calls w) @ [q]"
proof -
  from acondenseQuestion_frame [OF assms(2)] assms(1)
  obtain p x where
    p: "apredict (llmPredictor (serviceContext this)) p
          \<lparr>question = m, chat_history = messagesToHistoryStr I []\<rparr> (ext w) = (Inr q, x)"
    and c1: "calls w1 = calls w @ [Predict p
          \<lparr>question = m, chat_history = messagesToHistoryStr I []\<rparr>]"
    by auto
  have "calls w' = calls w1 @ [Query q]"
  proof (cases "aquery (queryEngine this) q (ext w1)")
    case (Pair r2 x2)
    with assms(2,3) show ?thesis
      by (cases r2)
         (auto simp add: CondenseQuestionChatEngine_achat_Inl2 CondenseQuestionChatEngine_achat_Inr)
  qed
  with p c1 show ?thesis by auto
qed

theorem condense_empty_history_question_witness:
  "heap stub_world (nullish None (CondenseQuestionChatEngine.chatHistory stub_condense)) = []
   \<and> fst (acondenseQuestion stub_modules stub_condense
        (nullish None (CondenseQuestionChatEngine.chatHistory stub_condense))
        ''What is X?'' stub_world) = Inr ''What is the capital of France?''
   \<and> queries (calls (snd (snd (CondenseQuestionChatEngine_achat stub_modules stub_condense
         ''What is X?'' None stub_world))))
       = queries (calls stub_world) @ [''What is the capital of France?'']"
proof -
  have h: "heap stub_world (nullish None (CondenseQuestionChatEngine.chatHistory stub_condense)) = []"
    by (simp add: nullish_def stub_defs)
  have c: "fst (acondenseQuestion stub_modules stub_condense
        (nullish None (CondenseQuestionChatEngine.chatHistory stub_condense))
        ''What is X?'' stub_world) = Inr ''What is the capital of France?''"
    by (simp add: acondenseQuestion_def call_apredict_def nullish_def Let_def stub_defs)
  then obtain w1 where c': "acondenseQuestion stub_modules stub_condense
        (nullish None (CondenseQuestionChatEngine.chatHistory stub_condense))
        ''What is X?'' stub_world = (Inr ''What is the capital of France?'', w1)"
    by (metis prod.collapse)
  obtain res this' w' where r: "CondenseQuestionChatEngine_achat stub_modules stub_condense
         ''What is X?'' None stub_world = (res, this', w')"
    by (metis prod.collapse)
  from condense_empty_history_question [OF h c' r] h c r show ?thesis
    by simp
qed

text \<open>
  C4. The claim is that the condensation call uses the template supplied at
  construction. The constructor stores the supplied template in
  \<^verbatim>\<open>condenseMessagePrompt\<close>, but \<^verbatim>\<open>acondenseQuestion\<close> passes
  \<^verbatim>\<open>defaultCondenseQuestionPrompt\<close> to the predictor: an engine constructed with
  the template \<^verbatim>\<open>custom template\<close> holds it in its field and calls the predictor
  with the default template.
\<close>

theorem condense_supplied_prompt_not_used:
  "condenseMessagePrompt (fst (CondenseQuestionChatEngine_new stub_modules stub_queryEngine
       None None (Some ''custom template'') stub_world)) = ''custom template''
   \<and> map fst (predictions (calls (snd (snd (CondenseQuestionChatEngine_achat stub_modules
         (fst (CondenseQuestionChatEngine_new stub_modules stub_queryEngine
            None None (Some ''custom template'') stub_world))
         ''hi'' None
         (snd (CondenseQuestionChatEngine_new stub_modules stub_queryEngine
            None None (Some ''custom template'') stub_world)))))))
       = [''default template'']"
  by (simp add: CondenseQuestionChatEngine_new_def CondenseQuestionChatEngine_achat_def
        acondenseQuestion_def call_apredict_def call_aquery_def alloc_def nullish_def Let_def
        stub_defs)

section \<open>Properties of the Context-Augmented strategy\<close>

text \<open>
  C3. In the Context-Augmented strategy (ContextChatEngine), for every call of
  \<^verbatim>\<open>achat\<close>, whatever its outcome: when retrieval succeeds, the completion service
  is called once, with the system message built from the retrieved items in front of
  the sequence the call works on (with the user message appended); every array of the
  store is only extended, and by messages that are not system messages, provided the
  completion service never answers with a system message (its contract is to answer as
  the assistant); hence if the sequence the call works on and the owned history hold no
  system message before the call (without history argument they are the same
  sequence), the owned history holds none after it.
\<close>

theorem context_system_message_not_persisted:
  assumes run: "ContextChatEngine_achat I t m h w = (res, t', w')"
    and contract: "\<forall>ms ev x0 cr x.
           achat (chatModel t) ms ev x0 = (Inr cr, x) \<longrightarrow> role (message cr) \<noteq> System"
  shows "(\<forall>u x0 items x1. uuidv4 I (ext w) = (u, x0)
            \<and> aretrieve (retriever t) m (Some (parentEvent u)) x0 = (Inr items, x1)
          \<longrightarrow> completions (calls w') = completions (calls w)
                @ [systemMessage I items # heap w (nullish h (ContextChatEngine.chatHistory t))
                     @ [\<lparr>content = m, role = User\<rparr>]])
       \<and> (\<forall>b. \<exists>ys. heap w' b = heap w b @ ys \<and> no_system ys)
       \<and> (no_system (heap w (nullish h (ContextChatEngine.chatHistory t)))
            \<and> no_system (heap w (ContextChatEngine.chatHistory t))
          \<longrightarrow> no_system (heap w' (ContextChatEngine.chatHistory t')))"
proof (cases rule: ContextChatEngine_achat_cases
    [where I = I and this = t and h = h and m = m and w = w])
  case (retrieve_failed u x0 e x1)
  from ContextChatEngine_achat_Inl1 [OF this] run retrieve_failed show ?thesis
    by auto
next
  case (chat_failed u x0 items x1 e x2)
  from ContextChatEngine_achat_Inl2 [OF this] run
  have "t' = t"
    and "heap w' = (heap w)(nullish h (ContextChatEngine.chatHistory t) :=
           heap w (nullish h (ContextChatEngine.chatHistory t)) @ [\<lparr>content = m, role = User\<rparr>])"
    and "completions (calls w') = completions (calls w)
           @ [systemMessage I items # heap w (nullish h (ContextChatEngine.chatHistory t))
                @ [\<lparr>content = m, role = User\<rparr>]]"
    by auto
  with chat_failed(1,2) show ?thesis
    by auto
next
  case (answered u x0 items x1 cr x2)
  from contract answered(3) have r: "role (message cr) \<noteq> System"
    by blast
  from ContextChatEngine_achat_Inr [OF answered] run
  have "ContextChatEngine.chatHistory t' = nullish h (ContextChatEngine.chatHistory t)"
    and "heap w' = (heap w)(nullish h (ContextChatEngine.chatHistory t) :=
           heap w (nullish h (ContextChatEngine.chatHistory t))
             @ [\<lparr>content = m, role = User\<rparr>, message cr])"
    and "completions (calls w') = completions (calls w)
           @ [systemMessage I items # heap w (nullish h (ContextChatEngine.chatHistory t))
                @ [\<lparr>content = m, role = User\<rparr>]]"
    by auto
  with answered(1,2) r show ?thesis
    by auto
qed

theorem context_system_message_not_persisted_witness:
  "fst context_run = Inr \<lparr>response = ''Paris.'', sourceNodes = [paris_node]\<rparr>
   \<and> no_system (heap stub_world (ContextChatEngine.chatHistory stub_context))
   \<and> no_system (heap (snd (snd context_run))
        (ContextChatEngine.chatHistory (fst (snd context_run))))
   \<and> completions (calls (snd (snd context_run)))
       = [[\<lparr>content = ''Context: Paris is the capital of France'', role = System\<rparr>,
           \<lparr>content = ''What is the capital of France?'', role = User\<rparr>]]"
proof -
  have run: "ContextChatEngine_achat stub_modules stub_context
      ''What is the capital of France?'' None stub_world
      = (fst context_run, fst (snd context_run), snd (snd context_run))"
    by (simp add: context_run_def)
  have contract: "\<forall>ms ev x0 cr x.
      achat (chatModel stub_context) ms ev x0 = (Inr cr, x) \<longrightarrow> role (message cr) \<noteq> System"
    by (auto simp add: stub_defs)
  have before: "no_system (heap stub_world (nullish None (ContextChatEngine.chatHistory stub_context)))"
    "no_system (heap stub_world (ContextChatEngine.chatHistory stub_context))"
    by (simp_all add: nullish_def stub_defs)
  from context_system_message_not_persisted [OF run contract] before
  have "no_system (heap (snd (snd context_run))
        (ContextChatEngine.chatHistory (fst (snd context_run))))"
    by blast
  with before(2) context_run_eq(1,4) show ?thesis
    by (simp add: parentEvent_def)
qed

text \<open>
  C5. In the Context-Augmented strategy, when the retriever returns a sequence of
  items: the source nodes of a returned Response are the nodes of these items, in the
  order returned; the completion service is called (right after the retriever) with the
  composed system message in front, also when the sequence is empty, and then the
  context block rendered into the system message is the empty string.
\<close>

theorem context_sources_in_rank_order:
  assumes "uuidv4 I (ext w) = (u, x0)"
    and "aretrieve (retriever t) m (Some (parentEvent u)) x0 = (Inr items, x1)"
    and run: "ContextChatEngine_achat I t m h w = (res, t', w')"
  shows "(\<forall>resp. res = Inr resp \<longrightarrow> sourceNodes resp = map node items)
       \<and> calls w' = calls w @ [Retrieve m (Some (parentEvent u)),
            LlmChat (systemMessage I items
                 # heap w (nullish h (ContextChatEngine.chatHistory t))
                 @ [\<lparr>content = m, role = User\<rparr>]) (Some (parentEvent u))]
       \<and> (items = [] \<longrightarrow>
            systemMessage I items = \<lparr>content = contextSystemPrompt I [], role = System\<rparr>)"
proof (cases "achat (chatModel t)
           (systemMessage I items # heap w (nullish h (ContextChatEngine.chatHistory t))
              @ [\<lparr>content = m, role = User\<rparr>]) (Some (parentEvent u)) x1")
  case (Pair r x2)
  show ?thesis
  proof (cases r)
    case (Inl e)
    with Pair have "achat (chatModel t)
           (systemMessage I items # heap w (nullish h (ContextChatEngine.chatHistory t))
              @ [\<lparr>content = m, role = User\<rparr>]) (Some (parentEvent u)) x1 = (Inl e, x2)"
      by simp
    from ContextChatEngine_achat_Inl2 [OF assms(1,2) this] run show ?thesis
      by (auto simp add: systemMessage_def)
  next
    case (Inr cr)
    with Pair have "achat (chatModel t)
           (systemMessage I items # heap w (nullish h (ContextChatEngine.chatHistory t))
              @ [\<lparr>content = m, role = User\<rparr>]) (Some (parentEvent u)) x1 = (Inr cr, x2)"
      by simp
    from ContextChatEngine_achat_Inr [OF assms(1,2) this] run show ?thesis
      by (auto simp add: systemMessage_def new_Response_def)
  qed
qed

theorem context_sources_in_rank_order_witness:
  "uuidv4 stub_modules (ext stub_world) = (''event-1'', 0)
   \<and> aretrieve (retriever (stub_context\<lparr>retriever := empty_retriever\<rparr>))
        ''What is the capital of France?'' (Some (parentEvent ''event-1'')) 0 = (Inr [], 1)
   \<and> fst context_run_empty = Inr \<lparr>response = ''Paris.'', sourceNodes = []\<rparr>
   \<and> sourceNodes \<lparr>response = ''Paris.'', sourceNodes = []\<rparr> = map node []
   \<and> calls (snd (snd context_run_empty))
       = calls stub_world
         @ [Retrieve ''What is the capital of France?'' (Some (parentEvent ''event-1'')),
            LlmChat [\<lparr>content = contextSystemPrompt stub_modules [], role = System\<rparr>,
                     \<lparr>content = ''What is the capital of France?'', role = User\<rparr>]
              (Some (parentEvent ''event-1''))]"
proof -
  have u: "uuidv4 stub_modules (ext stub_world) = (''event-1'', 0)"
    by (simp add: stub_defs)
  have r: "aretrieve (retriever (stub_context\<lparr>retriever := empty_retriever\<rparr>))
        ''What is the capital of France?'' (Some (parentEvent ''event-1'')) 0 = (Inr [], 1)"
    by (simp add: stub_defs)
  have run: "ContextChatEngine_achat stub_modules (stub_context\<lparr>retriever := empty_retriever\<rparr>)
      ''What is the capital of France?'' None stub_world
      = (fst context_run_empty, fst (snd context_run_empty), snd (snd context_run_empty))"
    by (simp add: context_run_empty_def)
  have h: "heap stub_world (nullish None (ContextChatEngine.chatHistory
      (stub_context\<lparr>retriever := empty_retriever\<rparr>))) = []"
    by (simp add: nullish_def stub_defs)
  from context_sources_in_rank_order [OF u r run] h u r context_run_empty_eq(1)
  show ?thesis
    by simp
qed

section \<open>Properties of all three strategies\<close>

text \<open>
  C2. After a successful \<^verbatim>\<open>achat(m)\<close> (no history argument), the owned history is
  the history before the call followed by exactly two entries: the user message with
  content m, then the reply. In the Direct and the Context-Augmented strategy the reply
  is the message returned by the completion service, and its content is the text of
  the Response; when that message has the role assistant (the contract of the service)
  the second entry is (role = assistant, content = the returned content). In the
  Condense-then-Query strategy the reply is (role = assistant, content = the text of the
  query engine's Response), the recorded user entry holds the original m, and the
  condensed question q went to the query engine only.
\<close>

theorem achat_appends_user_then_assistant:
  "(SimpleChatEngine_achat s m None w = (Inr r1, s', w1) \<longrightarrow>
      (\<exists>cr x. achat (llm s) (heap w (SimpleChatEngine.chatHistory s)
                  @ [\<lparr>content = m, role = User\<rparr>]) None (ext w) = (Inr cr, x)
         \<and> response r1 = content (message cr)
         \<and> heap w1 (SimpleChatEngine.chatHistory s') = heap w (SimpleChatEngine.chatHistory s)
              @ [\<lparr>content = m, role = User\<rparr>, message cr]
         \<and> (role (message cr) = Assistant \<longrightarrow>
              heap w1 (SimpleChatEngine.chatHistory s') = heap w (SimpleChatEngine.chatHistory s)
                @ [\<lparr>content = m, role = User\<rparr>,
                   \<lparr>content = content (message cr), role = Assistant\<rparr>])))
   \<and> (CondenseQuestionChatEngine_achat I c m None w = (Inr r2, c', w2) \<longrightarrow>
      (\<exists>q x0 x. aquery (queryEngine c) q x0 = (Inr r2, x)
         \<and> queries (calls w2) = queries (calls w) @ [q]
         \<and> heap w2 (CondenseQuestionChatEngine.chatHistory c')
              = heap w (CondenseQuestionChatEngine.chatHistory c)
                @ [\<lparr>content = m, role = User\<rparr>,
                   \<lparr>content = response r2, role = Assistant\<rparr>]))
   \<and> (ContextChatEngine_achat I t m None w = (Inr r3, t', w3) \<longrightarrow>
      (\<exists>ms ev x0 cr x. achat (chatModel t) ms ev x0 = (Inr cr, x)
         \<and> completions (calls w3) = completions (calls w) @ [ms]
         \<and> response r3 = content (message cr)
         \<and> heap w3 (ContextChatEngine.chatHistory t') = heap w (ContextChatEngine.chatHistory t)
              @ [\<lparr>content = m, role = User\<rparr>, message cr]
         \<and> (role (message cr) = Assistant \<longrightarrow>
              heap w3 (ContextChatEngine.chatHistory t') = heap w (ContextChatEngine.chatHistory t)
                @ [\<lparr>content = m, role = User\<rparr>,
                   \<lparr>content = content (message cr), role = Assistant\<rparr>])))"
proof (intro conjI impI)
  assume "SimpleChatEngine_achat s m None w = (Inr r1, s', w1)"
  from SimpleChatEngine_achat_turn [OF this]
  show "\<exists>cr x. achat (llm s) (heap w (SimpleChatEngine.chatHistory s)
                  @ [\<lparr>content = m, role = User\<rparr>]) None (ext w) = (Inr cr, x)
         \<and> response r1 = content (message cr)
         \<and> heap w1 (SimpleChatEngine.chatHistory s') = heap w (SimpleChatEngine.chatHistory s)
              @ [\<lparr>content = m, role = User\<rparr>, message cr]
         \<and> (role (message cr) = Assistant \<longrightarrow>
              heap w1 (SimpleChatEngine.chatHistory s') = heap w (SimpleChatEngine.chatHistory s)
                @ [\<lparr>content = m, role = User\<rparr>,
                   \<lparr>content = content (message cr), role = Assistant\<rparr>])"
    using ChatMessage_Assistant_eq by fastforce
next
  assume "CondenseQuestionChatEngine_achat I c m None w = (Inr r2, c', w2)"
  from CondenseQuestionChatEngine_achat_turn [OF this]
  show "\<exists>q x0 x. aquery (queryEngine c) q x0 = (Inr r2, x)
         \<and> queries (calls w2) = queries (calls w) @ [q]
         \<and> heap w2 (CondenseQuestionChatEngine.chatHistory c')
              = heap w (CondenseQuestionChatEngine.chatHistory c)
                @ [\<lparr>content = m, role = User\<rparr>,
                   \<lparr>content = response r2, role = Assistant\<rparr>]" .
next
  assume "ContextChatEngine_achat I t m None w = (Inr r3, t', w3)"
  from ContextChatEngine_achat_turn [OF this]
  show "\<exists>ms ev x0 cr x. achat (chatModel t) ms ev x0 = (Inr cr, x)
         \<and> completions (calls w3) = completions (calls w) @ [ms]
         \<and> response r3 = content (message cr)
         \<and> heap w3 (ContextChatEngine.chatHistory t') = heap w (ContextChatEngine.chatHistory t)
              @ [\<lparr>content = m, role = User\<rparr>, message cr]
         \<and> (role (message cr) = Assistant \<longrightarrow>
              heap w3 (ContextChatEngine.chatHistory t') = heap w (ContextChatEngine.chatHistory t)
                @ [\<lparr>content = m, role = User\<rparr>,
                   \<lparr>content = content (message cr), role = Assistant\<rparr>])"
    using ChatMessage_Assistant_eq by fastforce
qed

theorem achat_appends_user_then_assistant_witness:
  "fst simple_run = Inr \<lparr>response = ''Paris.'', sourceNodes = []\<rparr>
   \<and> heap (snd (snd simple_run)) (SimpleChatEngine.chatHistory (fst (snd simple_run)))
       = heap stub_world (SimpleChatEngine.chatHistory stub_simple)
         @ [\<lparr>content = ''hi'', role = User\<rparr>, \<lparr>content = ''Paris.'', role = Assistant\<rparr>]
   \<and> fst condense_run = Inr \<lparr>response = ''Paris.'', sourceNodes = [paris_node]\<rparr>
   \<and> heap (snd (snd condense_run))
        (CondenseQuestionChatEngine.chatHistory (fst (snd condense_run)))
       = heap stub_world (CondenseQuestionChatEngine.chatHistory stub_condense)
         @ [\<lparr>content = ''What is X?'', role = User\<rparr>,
            \<lparr>content = ''Paris.'', role = Assistant\<rparr>]
   \<and> fst context_run = Inr \<lparr>response = ''Paris.'', sourceNodes = [paris_node]\<rparr>
   \<and> heap (snd (snd context_run)) (ContextChatEngine.chatHistory (fst (snd context_run)))
       = heap stub_world (ContextChatEngine.chatHistory stub_context)
         @ [\<lparr>content = ''What is the capital of France?'', role = User\<rparr>,
            \<lparr>content = ''Paris.'', role = Assistant\<rparr>]"
proof -
  have s: "SimpleChatEngine_achat stub_simple ''hi'' None stub_world
      = (Inr \<lparr>response = ''Paris.'', sourceNodes = []\<rparr>, fst (snd simple_run),
         snd (snd simple_run))"
    unfolding simple_run_def [symmetric] by (rule triple_collapse) (rule simple_run_eq(1))
  have c: "CondenseQuestionChatEngine_achat stub_modules stub_condense ''What is X?'' None
      stub_world = (Inr \<lparr>response = ''Paris.'', sourceNodes = [paris_node]\<rparr>,
         fst (snd condense_run), snd (snd condense_run))"
    unfolding condense_run_def [symmetric] by (rule triple_collapse) (rule condense_run_eq(1))
  have t: "ContextChatEngine_achat stub_modules stub_context
      ''What is the capital of France?'' None stub_world
      = (Inr \<lparr>response = ''Paris.'', sourceNodes = [paris_node]\<rparr>,
         fst (snd context_run), snd (snd context_run))"
    unfolding context_run_def [symmetric] by (rule triple_collapse) (rule context_run_eq(1))
  from achat_appends_user_then_assistant
    [where s = stub_simple and m = "''hi''" and w = stub_world, THEN conjunct1, rule_format, OF s]
  have 1: "heap (snd (snd simple_run)) (SimpleChatEngine.chatHistory (fst (snd simple_run)))
       = heap stub_world (SimpleChatEngine.chatHistory stub_simple)
         @ [\<lparr>content = ''hi'', role = User\<rparr>, \<lparr>content = ''Paris.'', role = Assistant\<rparr>]"
    by (auto simp add: stub_defs)
  from achat_appends_user_then_assistant
    [where c = stub_condense and m = "''What is X?''" and w = stub_world and I = stub_modules,
      THEN conjunct2, THEN conjunct1, rule_format, OF c]
  have 2: "heap (snd (snd condense_run))
        (CondenseQuestionChatEngine.chatHistory (fst (snd condense_run)))
       = heap stub_world (CondenseQuestionChatEngine.chatHistory stub_condense)
         @ [\<lparr>content = ''What is X?'', role = User\<rparr>,
            \<lparr>content = ''Paris.'', role = Assistant\<rparr>]"
    by auto
  from achat_appends_user_then_assistant
    [where t = stub_context and m = "''What is the capital of France?''" and w = stub_world
       and I = stub_modules, THEN conjunct2, THEN conjunct2, rule_format, OF t]
  have 3: "heap (snd (snd context_run)) (ContextChatEngine.chatHistory (fst (snd context_run)))
       = heap stub_world (ContextChatEngine.chatHistory stub_context)
         @ [\<lparr>content = ''What is the capital of France?'', role = User\<rparr>,
            \<lparr>content = ''Paris.'', role = Assistant\<rparr>]"
    by (auto simp add: stub_defs)
  from 1 2 3 simple_run_eq(1) condense_run_eq(1) context_run_eq(1) show ?thesis
    by simp
qed

text \<open>
  C6. When a service call made during \<^verbatim>\<open>achat\<close> throws, the turn aborts there:
  \<^verbatim>\<open>achat\<close> throws the same error, the engine object is unchanged and no reply is
  appended to any array. In the Direct strategy (completion service throwing) the user
  message is already appended to the sequence the call works on. In the
  Condense-then-Query strategy (predictor throwing, or query engine throwing after the
  predictor answered) the store is unchanged. In the Context-Augmented strategy the
  store is unchanged when the retriever throws, and the user message is already
  appended when the completion service throws after the retriever answered. Each case
  gives the whole outcome of \<^verbatim>\<open>achat\<close>: the error, the engine, and the world with
  its store, external state and trace.
\<close>

theorem failed_turn_appends_no_assistant_message:
  "(achat (llm s) (heap w (nullish h1 (SimpleChatEngine.chatHistory s))
        @ [\<lparr>content = m, role = User\<rparr>]) None (ext w) = (Inl e1, x1) \<longrightarrow>
      SimpleChatEngine_achat s m h1 w =
        (Inl e1, s,
         w\<lparr>heap := (heap w)(nullish h1 (SimpleChatEngine.chatHistory s) :=
                heap w (nullish h1 (SimpleChatEngine.chatHistory s))
                  @ [\<lparr>content = m, role = User\<rparr>]),
            ext := x1,
            calls := calls w @ [LlmChat (heap w (nullish h1 (SimpleChatEngine.chatHistory s))
                  @ [\<lparr>content = m, role = User\<rparr>]) None]\<rparr>))
   \<and> (apredict (llmPredictor (serviceContext c)) (defaultCondenseQuestionPrompt I)
        \<lparr>question = m, chat_history = messagesToHistoryStr I
           (heap w (nullish h2 (CondenseQuestionChatEngine.chatHistory c)))\<rparr> (ext w)
        = (Inl e2, x2) \<longrightarrow>
      CondenseQuestionChatEngine_achat I c m h2 w =
        (Inl e2, c,
         w\<lparr>ext := x2,
            calls := calls w @ [Predict (defaultCondenseQuestionPrompt I)
              \<lparr>question = m, chat_history = messagesToHistoryStr I
                 (heap w (nullish h2 (CondenseQuestionChatEngine.chatHistory c)))\<rparr>]\<rparr>))
   \<and> (apredict (llmPredictor (serviceContext c)) (defaultCondenseQuestionPrompt I)
        \<lparr>question = m, chat_history = messagesToHistoryStr I
           (heap w (nullish h2 (CondenseQuestionChatEngine.chatHistory c)))\<rparr> (ext w)
        = (Inr q, x3)
      \<and> aquery (queryEngine c) q x3 = (Inl e3, x4) \<longrightarrow>
      CondenseQuestionChatEngine_achat I c m h2 w =
        (Inl e3, c,
         w\<lparr>ext := x4,
            calls := calls w @ [Predict (defaultCondenseQuestionPrompt I)
              \<lparr>question = m, chat_history = messagesToHistoryStr I
                 (heap w (nullish h2 (CondenseQuestionChatEngine.chatHistory c)))\<rparr>,
              Query q]\<rparr>))
   \<and> (uuidv4 I (ext w) = (u, x5)
      \<and> aretrieve (retriever t) m (Some (parentEvent u)) x5 = (Inl e4, x6) \<longrightarrow>
      ContextChatEngine_achat I t m h3 w =
        (Inl e4, t,
         w\<lparr>ext := x6, calls := calls w @ [Retrieve m (Some (parentEvent u))]\<rparr>))
   \<and> (uuidv4 I (ext w) = (u, x5)
      \<and> aretrieve (retriever t) m (Some (parentEvent u)) x5 = (Inr items, x7)
      \<and> achat (chatModel t)
           (systemMessage I items # heap w (nullish h3 (ContextChatEngine.chatHistory t))
              @ [\<lparr>content = m, role = User\<rparr>]) (Some (parentEvent u)) x7 = (Inl e5, x8) \<longrightarrow>
      ContextChatEngine_achat I t m h3 w =
        (Inl e5, t,
         w\<lparr>heap := (heap w)(nullish h3 (ContextChatEngine.chatHistory t) :=
                heap w (nullish h3 (ContextChatEngine.chatHistory t))
                  @ [\<lparr>content = m, role = User\<rparr>]),
            ext := x8,
            calls := calls w @ [Retrieve m (Some (parentEvent u)),
              LlmChat (systemMessage I items
                   # heap w (nullish h3 (ContextChatEngine.chatHistory t))
                   @ [\<lparr>content = m, role = User\<rparr>]) (Some (parentEvent u))]\<rparr>))"
proof (intro conjI impI)
  assume "achat (llm s) (heap w (nullish h1 (SimpleChatEngine.chatHistory s))
        @ [\<lparr>content = m, role = User\<rparr>]) None (ext w) = (Inl e1, x1)"
  then show "SimpleChatEngine_achat s m h1 w =
        (Inl e1, s,
         w\<lparr>heap := (heap w)(nullish h1 (SimpleChatEngine.chatHistory s) :=
                heap w (nullish h1 (SimpleChatEngine.chatHistory s))
                  @ [\<lparr>content = m, role = User\<rparr>]),
            ext := x1,
            calls := calls w @ [LlmChat (heap w (nullish h1 (SimpleChatEngine.chatHistory s))
                  @ [\<lparr>content = m, role = User\<rparr>]) None]\<rparr>)"
    by (rule SimpleChatEngine_achat_Inl)
next
  assume "apredict (llmPredictor (serviceContext c)) (defaultCondenseQuestionPrompt I)
        \<lparr>question = m, chat_history = messagesToHistoryStr I
           (heap w (nullish h2 (CondenseQuestionChatEngine.chatHistory c)))\<rparr> (ext w)
        = (Inl e2, x2)"
  from CondenseQuestionChatEngine_achat_Inl1 [OF acondenseQuestion_eq [OF this]]
  show "CondenseQuestionChatEngine_achat I c m h2 w =
        (Inl e2, c,
         w\<lparr>ext := x2,
            calls := calls w @ [Predict (defaultCondenseQuestionPrompt I)
              \<lparr>question = m, chat_history = messagesToHistoryStr I
                 (heap w (nullish h2 (CondenseQuestionChatEngine.chatHistory c)))\<rparr>]\<rparr>)" .
next
  assume "apredict (llmPredictor (serviceContext c)) (defaultCondenseQuestionPrompt I)
        \<lparr>question = m, chat_history = messagesToHistoryStr I
           (heap w (nullish h2 (CondenseQuestionChatEngine.chatHistory c)))\<rparr> (ext w)
        = (Inr q, x3)
      \<and> aquery (queryEngine c) q x3 = (Inl e3, x4)"
  then have p: "apredict (llmPredictor (serviceContext c)) (defaultCondenseQuestionPrompt I)
        \<lparr>question = m, chat_history = messagesToHistoryStr I
           (heap w (nullish h2 (CondenseQuestionChatEngine.chatHistory c)))\<rparr> (ext w)
        = (Inr q, x3)"
    and a: "aquery (queryEngine c) q x3 = (Inl e3, x4)"
    by simp_all
  from CondenseQuestionChatEngine_achat_Inl2 [OF acondenseQuestion_eq [OF p]] a
  show "CondenseQuestionChatEngine_achat I c m h2 w =
        (Inl e3, c,
         w\<lparr>ext := x4,
            calls := calls w @ [Predict (defaultCondenseQuestionPrompt I)
              \<lparr>question = m, chat_history = messagesToHistoryStr I
                 (heap w (nullish h2 (CondenseQuestionChatEngine.chatHistory c)))\<rparr>,
              Query q]\<rparr>)"
    by simp
next
  assume "uuidv4 I (ext w) = (u, x5)
      \<and> aretrieve (retriever t) m (Some (parentEvent u)) x5 = (Inl e4, x6)"
  then show "ContextChatEngine_achat I t m h3 w =
        (Inl e4, t,
         w\<lparr>ext := x6, calls := calls w @ [Retrieve m (Some (parentEvent u))]\<rparr>)"
    by (simp add: ContextChatEngine_achat_Inl1)
next
  assume "uuidv4 I (ext w) = (u, x5)
      \<and> aretrieve (retriever t) m (Some (parentEvent u)) x5 = (Inr items, x7)
      \<and> achat (chatModel t)
           (systemMessage I items # heap w (nullish h3 (ContextChatEngine.chatHistory t))
              @ [\<lparr>content = m, role = User\<rparr>]) (Some (parentEvent u)) x7 = (Inl e5, x8)"
  then show "ContextChatEngine_achat I t m h3 w =
        (Inl e5, t,
         w\<lparr>heap := (heap w)(nullish h3 (ContextChatEngine.chatHistory t) :=
                heap w (nullish h3 (ContextChatEngine.chatHistory t))
                  @ [\<lparr>content = m, role = User\<rparr>]),
            ext := x8,
            calls := calls w @ [Retrieve m (Some (parentEvent u)),
              LlmChat (systemMessage I items
                   # heap w (nullish h3 (ContextChatEngine.chatHistory t))
                   @ [\<lparr>content = m, role = User\<rparr>]) (Some (parentEvent u))]\<rparr>)"
    by (simp add: ContextChatEngine_achat_Inl2)
qed

theorem failed_turn_appends_no_assistant_message_witness:
  "achat (llm (stub_simple\<lparr>llm := down_llm\<rparr>))
      (heap stub_world (nullish None (SimpleChatEngine.chatHistory (stub_simple\<lparr>llm := down_llm\<rparr>)))
         @ [\<lparr>content = ''hi'', role = User\<rparr>]) None (ext stub_world)
     = (Inl (Error ''rate limit''), 0)
   \<and> fst simple_run_down = Inl (Error ''rate limit'')
   \<and> fst (snd simple_run_down) = stub_simple\<lparr>llm := down_llm\<rparr>
   \<and> heap (snd (snd simple_run_down)) 0 = [\<lparr>content = ''hi'', role = User\<rparr>]
   \<and> fst condense_run_down = Inl (Error ''timeout'')
   \<and> fst (snd condense_run_down)
       = stub_condense\<lparr>serviceContext := \<lparr>llmPredictor = down_predictor\<rparr>\<rparr>
   \<and> heap (snd (snd condense_run_down)) = heap stub_world
   \<and> aquery (queryEngine (stub_condense\<lparr>queryEngine := down_queryEngine\<rparr>))
        ''What is the capital of France?'' 1 = (Inl (Error ''engine offline''), 1)
   \<and> fst condense_run_query_down = Inl (Error ''engine offline'')
   \<and> fst (snd condense_run_query_down) = stub_condense\<lparr>queryEngine := down_queryEngine\<rparr>
   \<and> heap (snd (snd condense_run_query_down)) = heap stub_world
   \<and> fst context_run_retrieve_down = Inl (Error ''index offline'')
   \<and> fst (snd context_run_retrieve_down) = stub_context\<lparr>retriever := down_retriever\<rparr>
   \<and> heap (snd (snd context_run_retrieve_down)) = heap stub_world
   \<and> fst context_run_down = Inl (Error ''rate limit'')
   \<and> fst (snd context_run_down) = stub_context\<lparr>chatModel := down_llm\<rparr>
   \<and> heap (snd (snd context_run_down)) 0
       = [\<lparr>content = ''What is the capital of France?'', role = User\<rparr>]"
proof -
  note T = failed_turn_appends_no_assistant_message
  have g1: "achat (llm (stub_simple\<lparr>llm := down_llm\<rparr>))
      (heap stub_world (nullish None (SimpleChatEngine.chatHistory (stub_simple\<lparr>llm := down_llm\<rparr>)))
         @ [\<lparr>content = ''hi'', role = User\<rparr>]) None (ext stub_world)
     = (Inl (Error ''rate limit''), 0)"
    by (simp add: stub_defs)
  have g2: "apredict (llmPredictor (serviceContext
        (stub_condense\<lparr>serviceContext := \<lparr>llmPredictor = down_predictor\<rparr>\<rparr>)))
      (defaultCondenseQuestionPrompt stub_modules)
      \<lparr>question = ''What is X?'', chat_history = messagesToHistoryStr stub_modules
         (heap stub_world (nullish None (CondenseQuestionChatEngine.chatHistory
            (stub_condense\<lparr>serviceContext := \<lparr>llmPredictor = down_predictor\<rparr>\<rparr>))))\<rparr>
      (ext stub_world) = (Inl (Error ''timeout''), 0)"
    by (simp add: stub_defs)
  have g3: "apredict (llmPredictor (serviceContext
        (stub_condense\<lparr>queryEngine := down_queryEngine\<rparr>)))
      (defaultCondenseQuestionPrompt stub_modules)
      \<lparr>question = ''What is X?'', chat_history = messagesToHistoryStr stub_modules
         (heap stub_world (nullish None (CondenseQuestionChatEngine.chatHistory
            (stub_condense\<lparr>queryEngine := down_queryEngine\<rparr>))))\<rparr>
      (ext stub_world) = (Inr ''What is the capital of France?'', 1)
    \<and> aquery (queryEngine (stub_condense\<lparr>queryEngine := down_queryEngine\<rparr>))
        ''What is the capital of France?'' 1 = (Inl (Error ''engine offline''), 1)"
    by (simp add: stub_defs)
  have g4: "uuidv4 stub_modules (ext stub_world) = (''event-1'', 0)
    \<and> aretrieve (retriever (stub_context\<lparr>retriever := down_retriever\<rparr>))
        ''What is the capital of France?'' (Some (parentEvent ''event-1'')) 0
      = (Inl (Error ''index offline''), 0)"
    by (simp add: stub_defs)
  have g5: "uuidv4 stub_modules (ext stub_world) = (''event-1'', 0)
    \<and> aretrieve (retriever (stub_context\<lparr>chatModel := down_llm\<rparr>))
        ''What is the capital of France?'' (Some (parentEvent ''event-1'')) 0
      = (Inr [\<lparr>node = paris_node, score = 9 / 10\<rparr>], 1)
    \<and> achat (chatModel (stub_context\<lparr>chatModel := down_llm\<rparr>))
        (systemMessage stub_modules [\<lparr>node = paris_node, score = 9 / 10\<rparr>]
           # heap stub_world (nullish None (ContextChatEngine.chatHistory
               (stub_context\<lparr>chatModel := down_llm\<rparr>)))
           @ [\<lparr>content = ''What is the capital of France?'', role = User\<rparr>])
        (Some (parentEvent ''event-1'')) 1 = (Inl (Error ''rate limit''), 1)"
    by (simp add: stub_defs)
  have 1: "fst simple_run_down = Inl (Error ''rate limit'')
      \<and> fst (snd simple_run_down) = stub_simple\<lparr>llm := down_llm\<rparr>
      \<and> heap (snd (snd simple_run_down)) 0 = [\<lparr>content = ''hi'', role = User\<rparr>]"
    unfolding simple_run_down_def
    by (simp add: T [THEN conjunct1, rule_format, OF g1]) (simp add: nullish_def stub_defs)
  have 2: "fst condense_run_down = Inl (Error ''timeout'')
      \<and> fst (snd condense_run_down)
          = stub_condense\<lparr>serviceContext := \<lparr>llmPredictor = down_predictor\<rparr>\<rparr>
      \<and> heap (snd (snd condense_run_down)) = heap stub_world"
    unfolding condense_run_down_def
    by (simp add: T [THEN conjunct2, THEN conjunct1, rule_format, OF g2])
  have 3: "fst condense_run_query_down = Inl (Error ''engine offline'')
      \<and> fst (snd condense_run_query_down) = stub_condense\<lparr>queryEngine := down_queryEngine\<rparr>
      \<and> heap (snd (snd condense_run_query_down)) = heap stub_world"
    unfolding condense_run_query_down_def
    by (simp add: T [THEN conjunct2, THEN conjunct2, THEN conjunct1, rule_format, OF g3])
  have 4: "fst context_run_retrieve_down = Inl (Error ''index offline'')
      \<and> fst (snd context_run_retrieve_down) = stub_context\<lparr>retriever := down_retriever\<rparr>
      \<and> heap (snd (snd context_run_retrieve_down)) = heap stub_world"
    unfolding context_run_retrieve_down_def
    by (simp add: T [THEN conjunct2, THEN conjunct2, THEN conjunct2, THEN conjunct1,
          rule_format, OF g4])
  have 5: "fst context_run_down = Inl (Error ''rate limit'')
      \<and> fst (snd context_run_down) = stub_context\<lparr>chatModel := down_llm\<rparr>
      \<and> heap (snd (snd context_run_down)) 0
          = [\<lparr>content = ''What is the capital of France?'', role = User\<rparr>]"
    unfolding context_run_down_def
    by (simp add: T [THEN conjunct2, THEN conjunct2, THEN conjunct2, THEN conjunct2,
          rule_format, OF g5]) (simp add: nullish_def stub_defs)
  from g1 g3 1 2 3 4 5 show ?thesis
    by simp
qed

text \<open>
  C8. For each of the three strategies and every state (whatever calls came before),
  after \<^verbatim>\<open>reset()\<close> the owned history reads as the empty sequence; and after a second
  \<^verbatim>\<open>reset()\<close> the engine reads exactly as after the first (its fields, with the
  history read through its reference), with the external state and the trace untouched.
\<close>

theorem reset_clears_history_and_is_idempotent:
  "heap (snd (SimpleChatEngine_reset s w))
      (SimpleChatEngine.chatHistory (fst (SimpleChatEngine_reset s w))) = []
   \<and> heap (snd (CondenseQuestionChatEngine_reset c w))
      (CondenseQuestionChatEngine.chatHistory (fst (CondenseQuestionChatEngine_reset c w))) = []
   \<and> heap (snd (ContextChatEngine_reset t w))
      (ContextChatEngine.chatHistory (fst (ContextChatEngine_reset t w))) = []
   \<and> (case SimpleChatEngine_reset s w of (s1, w1) \<Rightarrow>
        case SimpleChatEngine_reset s1 w1 of (s2, w2) \<Rightarrow>
          SimpleChatEngine_state s2 w2 = SimpleChatEngine_state s1 w1
          \<and> ext w2 = ext w1 \<and> calls w2 = calls w1)
   \<and> (case CondenseQuestionChatEngine_reset c w of (c1, w1) \<Rightarrow>
        case CondenseQuestionChatEngine_reset c1 w1 of (c2, w2) \<Rightarrow>
          CondenseQuestionChatEngine_state c2 w2 = CondenseQuestionChatEngine_state c1 w1
          \<and> ext w2 = ext w1 \<and> calls w2 = calls w1)
   \<and> (case ContextChatEngine_reset t w of (t1, w1) \<Rightarrow>
        case ContextChatEngine_reset t1 w1 of (t2, w2) \<Rightarrow>
          ContextChatEngine_state t2 w2 = ContextChatEngine_state t1 w1
          \<and> ext w2 = ext w1 \<and> calls w2 = calls w1)"
  by (simp add: SimpleChatEngine_reset_def CondenseQuestionChatEngine_reset_def
        ContextChatEngine_reset_def alloc_def SimpleChatEngine_state_def
        CondenseQuestionChatEngine_state_def ContextChatEngine_state_def)

text \<open>
  C10. A successful \<^verbatim>\<open>achat\<close> with an explicit history argument a: the
  SimpleChatEngine and the ContextChatEngine append the two entries of the turn to the
  supplied array and make it their owned history, so that a following call without
  history argument works on it; the CondenseQuestionChatEngine appends the two entries
  to the supplied array and is itself unchanged, so that a following call without
  history argument renders its original owned array, which the turn has not changed
  when it is another array than a.
\<close>

theorem history_override_ownership:
  "(SimpleChatEngine_achat s m (Some a) w = (Inr r1, s', w1) \<longrightarrow>
      SimpleChatEngine.chatHistory s' = a
      \<and> (\<exists>reply. heap w1 = (heap w)(a := heap w a @ [\<lparr>content = m, role = User\<rparr>, reply]))
      \<and> completions (calls (snd (snd (SimpleChatEngine_achat s' m2 None w1))))
          = completions (calls w1) @ [heap w1 a @ [\<lparr>content = m2, role = User\<rparr>]])
   \<and> (ContextChatEngine_achat I t m (Some a) w = (Inr r3, t', w3) \<longrightarrow>
      ContextChatEngine.chatHistory t' = a
      \<and> (\<exists>reply. heap w3 = (heap w)(a := heap w a @ [\<lparr>content = m, role = User\<rparr>, reply]))
      \<and> (uuidv4 I (ext w3) = (u, x0)
           \<and> aretrieve (retriever t') m2 (Some (parentEvent u)) x0 = (Inr items, x1)
         \<longrightarrow> completions (calls (snd (snd (ContextChatEngine_achat I t' m2 None w3))))
               = completions (calls w3)
                 @ [systemMessage I items # heap w3 a @ [\<lparr>content = m2, role = User\<rparr>]]))
   \<and> (CondenseQuestionChatEngine_achat I c m (Some a) w = (Inr r2, c', w2) \<longrightarrow>
      c' = c
      \<and> heap w2 = (heap w)(a := heap w a
           @ [\<lparr>content = m, role = User\<rparr>, \<lparr>content = response r2, role = Assistant\<rparr>])
      \<and> (a \<noteq> CondenseQuestionChatEngine.chatHistory c \<longrightarrow>
           heap w2 (CondenseQuestionChatEngine.chatHistory c')
             = heap w (CondenseQuestionChatEngine.chatHistory c))
      \<and> map snd (predictions (calls (snd (snd
             (CondenseQuestionChatEngine_achat I c' m2 None w2)))))
          = map snd (predictions (calls w2))
            @ [\<lparr>question = m2, chat_history = messagesToHistoryStr I
                 (heap w2 (CondenseQuestionChatEngine.chatHistory c))\<rparr>])"
proof (intro conjI impI)
  assume "SimpleChatEngine_achat s m (Some a) w = (Inr r1, s', w1)"
  from SimpleChatEngine_achat_override [OF this]
  show "SimpleChatEngine.chatHistory s' = a"
    and "\<exists>reply. heap w1 = (heap w)(a := heap w a @ [\<lparr>content = m, role = User\<rparr>, reply])"
    and "completions (calls (snd (snd (SimpleChatEngine_achat s' m2 None w1))))
          = completions (calls w1) @ [heap w1 a @ [\<lparr>content = m2, role = User\<rparr>]]"
    by (simp_all add: SimpleChatEngine_achat_completions nullish_def)
next
  assume "ContextChatEngine_achat I t m (Some a) w = (Inr r3, t', w3)"
  from ContextChatEngine_achat_override [OF this]
  show "ContextChatEngine.chatHistory t' = a"
    and "\<exists>reply. heap w3 = (heap w)(a := heap w a @ [\<lparr>content = m, role = User\<rparr>, reply])"
    and "uuidv4 I (ext w3) = (u, x0)
           \<and> aretrieve (retriever t') m2 (Some (parentEvent u)) x0 = (Inr items, x1)
         \<Longrightarrow> completions (calls (snd (snd (ContextChatEngine_achat I t' m2 None w3))))
               = completions (calls w3)
                 @ [systemMessage I items # heap w3 a @ [\<lparr>content = m2, role = User\<rparr>]]"
    by (simp_all add: ContextChatEngine_achat_calls nullish_def)
next
  assume "CondenseQuestionChatEngine_achat I c m (Some a) w = (Inr r2, c', w2)"
  from CondenseQuestionChatEngine_achat_override [OF this]
  show "c' = c"
    and "heap w2 = (heap w)(a := heap w a
           @ [\<lparr>content = m, role = User\<rparr>, \<lparr>content = response r2, role = Assistant\<rparr>])"
    and "a \<noteq> CondenseQuestionChatEngine.chatHistory c \<Longrightarrow>
           heap w2 (CondenseQuestionChatEngine.chatHistory c')
             = heap w (CondenseQuestionChatEngine.chatHistory c)"
    and "map snd (predictions (calls (snd (snd
             (CondenseQuestionChatEngine_achat I c' m2 None w2)))))
          = map snd (predictions (calls w2))
            @ [\<lparr>question = m2, chat_history = messagesToHistoryStr I
                 (heap w2 (CondenseQuestionChatEngine.chatHistory c))\<rparr>]"
    by (simp_all add: CondenseQuestionChatEngine_achat_predictions nullish_def)
qed

theorem history_override_ownership_witness:
  "fst simple_run_override = Inr \<lparr>response = ''Paris.'', sourceNodes = []\<rparr>
   \<and> SimpleChatEngine.chatHistory (fst (snd simple_run_override)) = 1
   \<and> fst context_run_override = Inr \<lparr>response = ''Paris.'', sourceNodes = [paris_node]\<rparr>
   \<and> ContextChatEngine.chatHistory (fst (snd context_run_override)) = 1
   \<and> fst condense_run_override = Inr \<lparr>response = ''Paris.'', sourceNodes = [paris_node]\<rparr>
   \<and> fst (snd condense_run_override) = stub_condense
   \<and> heap (snd (snd condense_run_override))
        (CondenseQuestionChatEngine.chatHistory (fst (snd condense_run_override)))
       = heap stub_world (CondenseQuestionChatEngine.chatHistory stub_condense)"
proof -
  have s: "SimpleChatEngine_achat stub_simple ''hi'' (Some 1) stub_world
      = (Inr \<lparr>response = ''Paris.'', sourceNodes = []\<rparr>, fst (snd simple_run_override),
         snd (snd simple_run_override))"
    unfolding simple_run_override_def [symmetric] by (rule triple_collapse) (rule simple_run_override_eq(1))
  have t: "ContextChatEngine_achat stub_modules stub_context
      ''What is the capital of France?'' (Some 1) stub_world
      = (Inr \<lparr>response = ''Paris.'', sourceNodes = [paris_node]\<rparr>,
         fst (snd context_run_override), snd (snd context_run_override))"
    unfolding context_run_override_def [symmetric] by (rule triple_collapse) (rule context_run_override_eq(1))
  have c: "CondenseQuestionChatEngine_achat stub_modules stub_condense ''What is X?'' (Some 1)
      stub_world = (Inr \<lparr>response = ''Paris.'', sourceNodes = [paris_node]\<rparr>,
         fst (snd condense_run_override), snd (snd condense_run_override))"
    unfolding condense_run_override_def [symmetric] by (rule triple_collapse) (rule condense_run_override_eq(1))
  have ne: "(1::nat) \<noteq> CondenseQuestionChatEngine.chatHistory stub_condense"
    by (simp add: stub_defs)
  from history_override_ownership [THEN conjunct1, rule_format, OF s]
  have 1: "SimpleChatEngine.chatHistory (fst (snd simple_run_override)) = 1"
    by simp
  from history_override_ownership [THEN conjunct2, THEN conjunct1, rule_format, OF t]
  have 2: "ContextChatEngine.chatHistory (fst (snd context_run_override)) = 1"
    by simp
  from history_override_ownership [THEN conjunct2, THEN conjunct2, rule_format, OF c] ne
  have 3: "fst (snd condense_run_override) = stub_condense"
    "heap (snd (snd condense_run_override))
        (CondenseQuestionChatEngine.chatHistory (fst (snd condense_run_override)))
       = heap stub_world (CondenseQuestionChatEngine.chatHistory stub_condense)"
    by simp_all
  from 1 2 3 simple_run_override_eq(1) context_run_override_eq(1) condense_run_override_eq(1)
  show ?thesis
    by simp
qed

end
